theory Spec2Isabelle
  imports Main "HOL-Library.Word" "HOL-Library.Sublist"
begin

unbundle bit_operations_syntax

section \<open>The non-blocking TLS client demos (ddd-04 and ddd-05)\<close>

text \<open>
  The source file \<^verbatim>\<open>ddd-04-fd-nonblocking.c\<close> holds two programs: demo 4, where
  libssl owns a socket descriptor (\<^verbatim>\<open>SSL_set_fd\<close>), and demo 5, where libssl only
  sees one half of a memory BIO pair and the application pumps the other half. Both
  declare \<^verbatim>\<open>APP_CONN\<close>, \<^verbatim>\<open>new_conn\<close>, \<^verbatim>\<open>tx\<close>, \<^verbatim>\<open>rx\<close>,
  \<^verbatim>\<open>get_conn_pending_tx\<close>, \<^verbatim>\<open>get_conn_pending_rx\<close> and \<^verbatim>\<open>teardown\<close>; the
  functions of demo 4 keep their names here and those of demo 5 carry the suffix
  \<open>_mem\<close>.

  C \<^verbatim>\<open>int\<close> values are modelled as \<open>int\<close>: no arithmetic of the program can
  overflow (it only compares, masks and returns them). \<^verbatim>\<open>size_t\<close> is \<open>nat\<close>.
\<close>

type_synonym byte = "8 word"

subsection \<open>Constants of the system headers\<close>

text \<open>
  \<^verbatim>\<open>POLLIN\<close>, \<^verbatim>\<open>POLLOUT\<close>, \<^verbatim>\<open>POLLERR\<close> (\<^verbatim>\<open>sys/poll.h\<close>), \<^verbatim>\<open>EAGAIN\<close>
  (\<^verbatim>\<open>errno.h\<close>) and the \<^verbatim>\<open>SSL_ERROR_*\<close> codes (\<^verbatim>\<open>openssl/ssl.h\<close>) are not
  part of the repository; they carry the values of Linux and of OpenSSL.
\<close>

definition POLLIN :: int where "POLLIN = 1"
definition POLLOUT :: int where "POLLOUT = 4"
definition POLLERR :: int where "POLLERR = 8"

definition EAGAIN :: int where "EAGAIN = 11"

definition SSL_ERROR_NONE :: int where "SSL_ERROR_NONE = 0"
definition SSL_ERROR_SSL :: int where "SSL_ERROR_SSL = 1"
definition SSL_ERROR_WANT_READ :: int where "SSL_ERROR_WANT_READ = 2"
definition SSL_ERROR_WANT_WRITE :: int where "SSL_ERROR_WANT_WRITE = 3"
definition SSL_ERROR_WANT_X509_LOOKUP :: int where "SSL_ERROR_WANT_X509_LOOKUP = 4"
definition SSL_ERROR_SYSCALL :: int where "SSL_ERROR_SYSCALL = 5"
definition SSL_ERROR_ZERO_RETURN :: int where "SSL_ERROR_ZERO_RETURN = 6"
definition SSL_ERROR_WANT_CONNECT :: int where "SSL_ERROR_WANT_CONNECT = 7"
definition SSL_ERROR_WANT_ACCEPT :: int where "SSL_ERROR_WANT_ACCEPT = 8"

lemmas poll_defs = POLLIN_def POLLOUT_def POLLERR_def

lemmas ssl_error_defs =
  SSL_ERROR_NONE_def SSL_ERROR_SSL_def SSL_ERROR_WANT_READ_def SSL_ERROR_WANT_WRITE_def
  SSL_ERROR_WANT_X509_LOOKUP_def SSL_ERROR_SYSCALL_def SSL_ERROR_ZERO_RETURN_def
  SSL_ERROR_WANT_CONNECT_def SSL_ERROR_WANT_ACCEPT_def

subsection \<open>The TLS engine as a black box\<close>

text \<open>
  libssl is not part of the repository. The engine is a state of an arbitrary type
  \<open>'s\<close> and the entry points the wrappers call are parameters: each takes the engine
  state and returns its C result with the new state. \<open>SSL_write\<close> and \<open>SSL_read\<close>
  are the calls of demo 4. \<open>BIO_write\<close> and \<open>BIO_read\<close> are the calls of demo 5 on
  the SSL filter BIO \<^verbatim>\<open>conn->ssl_bio\<close>. \<open>SSL_get_error\<close> reads the cause of a
  result \<open>l \<le> 0\<close>. A read returns the bytes it stored in the caller's buffer.
\<close>

record 's engine =
  SSL_write :: "'s \<Rightarrow> byte list \<Rightarrow> int \<Rightarrow> int \<times> 's"
  SSL_read :: "'s \<Rightarrow> int \<Rightarrow> int \<times> byte list \<times> 's"
  BIO_write :: "'s \<Rightarrow> byte list \<Rightarrow> int \<Rightarrow> int \<times> 's"
  BIO_read :: "'s \<Rightarrow> int \<Rightarrow> int \<times> byte list \<times> 's"
  SSL_get_error :: "'s \<Rightarrow> int \<Rightarrow> int"

subsection \<open>The connection record\<close>

text \<open>
  Demo 4: \<^verbatim>\<open>typedef struct app_conn_st { SSL *ssl; int fd; int rx_need_tx, tx_need_rx; } APP_CONN;\<close>
  Demo 5: \<^verbatim>\<open>typedef struct app_conn_st { SSL *ssl; BIO *ssl_bio, *net_bio; int rx_need_tx, tx_need_rx; } APP_CONN;\<close>
  The fields both structs share form the record \<open>APP_CONN\<close>; each demo extends it.
  A connection owns its engine, so \<open>ssl\<close> holds the engine state itself, and
  \<^verbatim>\<open>ssl_bio\<close>, a filter over the same engine, has no field of its own. In demo 5
  \<open>net_bio\<close> holds the state of the BIO pair as the application's half sees it.
\<close>

record 's APP_CONN =
  ssl :: 's
  rx_need_tx :: int
  tx_need_rx :: int

record 's APP_CONN_fd = "'s APP_CONN" +
  fd :: int

subsection \<open>Demo 4: the wrappers\<close>

text \<open>
  \<^verbatim>\<open>int tx(APP_CONN *conn, const void *buf, int buf_len)\<close>: the flag is cleared first;
  the \<^verbatim>\<open>switch\<close> falls through from \<^verbatim>\<open>SSL_ERROR_WANT_READ\<close> into the two cases
  that return \<open>-2\<close>. The result is the C return value with the updated connection.
\<close>

definition tx :: "'s engine \<Rightarrow> 's APP_CONN_fd \<Rightarrow> byte list \<Rightarrow> int \<Rightarrow> int \<times> 's APP_CONN_fd" where
  "tx E conn buf buf_len =
     (let conn1 = conn\<lparr>tx_need_rx := 0\<rparr>;
          (l, s) = SSL_write E (ssl conn1) buf buf_len;
          conn2 = conn1\<lparr>ssl := s\<rparr>
      in if l \<le> 0 then
           (let rc = SSL_get_error E (ssl conn2) l
            in if rc = SSL_ERROR_WANT_READ then (-2, conn2\<lparr>tx_need_rx := 1\<rparr>)
               else if rc = SSL_ERROR_WANT_CONNECT \<or> rc = SSL_ERROR_WANT_WRITE then (-2, conn2)
               else (-1, conn2))
         else (l, conn2))"

text \<open>
  \<^verbatim>\<open>int rx(APP_CONN *conn, void *buf, int buf_len)\<close>: the \<^verbatim>\<open>switch\<close> has the cases
  \<^verbatim>\<open>SSL_ERROR_WANT_WRITE\<close> (falling through) and \<^verbatim>\<open>SSL_ERROR_WANT_READ\<close> only. The
  result holds the return value, the bytes stored in \<^verbatim>\<open>buf\<close> and the connection.
\<close>

definition rx :: "'s engine \<Rightarrow> 's APP_CONN_fd \<Rightarrow> int \<Rightarrow> int \<times> byte list \<times> 's APP_CONN_fd" where
  "rx E conn buf_len =
     (let conn1 = conn\<lparr>rx_need_tx := 0\<rparr>;
          (l, buf, s) = SSL_read E (ssl conn1) buf_len;
          conn2 = conn1\<lparr>ssl := s\<rparr>
      in if l \<le> 0 then
           (let rc = SSL_get_error E (ssl conn2) l
            in if rc = SSL_ERROR_WANT_WRITE then (-2, buf, conn2\<lparr>rx_need_tx := 1\<rparr>)
               else if rc = SSL_ERROR_WANT_READ then (-2, buf, conn2)
               else (-1, buf, conn2))
         else (l, buf, conn2))"

definition get_conn_fd :: "'s APP_CONN_fd \<Rightarrow> int" where
  "get_conn_fd conn = fd conn"

text \<open>
  \<^verbatim>\<open>return (conn->tx_need_rx ? POLLIN : 0) | POLLOUT | POLLERR;\<close> and
  \<^verbatim>\<open>return (conn->rx_need_tx ? POLLOUT : 0) | POLLIN | POLLERR;\<close> The two queries
  have the same text in both demos and read the shared fields only, so one definition
  over the common record stands for both. They read the connection and write nothing:
  they are functions of the connection alone.
\<close>

definition get_conn_pending_tx :: "('s, 'z) APP_CONN_scheme \<Rightarrow> int" where
  "get_conn_pending_tx conn = (if tx_need_rx conn \<noteq> 0 then POLLIN else 0) OR POLLOUT OR POLLERR"

definition get_conn_pending_rx :: "('s, 'z) APP_CONN_scheme \<Rightarrow> int" where
  "get_conn_pending_rx conn = (if rx_need_tx conn \<noteq> 0 then POLLOUT else 0) OR POLLIN OR POLLERR"

subsection \<open>Demo 5: the BIO pair\<close>

text \<open>
  \<^verbatim>\<open>BIO_new_bio_pair(&internal_bio, 0, &net_bio, 0)\<close> makes two connected memory BIOs.
  What is written to one half is read from the other; each half has a write buffer of
  a fixed size. The engine holds \<^verbatim>\<open>internal_bio\<close>, the application \<^verbatim>\<open>net_bio\<close>.
  libcrypto is not part of the repository; the four calls the application makes on
  \<^verbatim>\<open>net_bio\<close> follow OpenSSL's \<^verbatim>\<open>bss_bio.c\<close> (for a pair that was not shut down):
  \<^item> \<open>out_buf\<close>: the bytes the engine wrote and \<^verbatim>\<open>net_bio\<close> has not read yet
    (encrypted output waiting for the network);
  \<^item> \<open>in_buf\<close>: the bytes written to \<^verbatim>\<open>net_bio\<close> that the engine has not read yet
    (encrypted input), at most \<open>in_size\<close> of them.
\<close>

record bio_pair =
  out_buf :: "byte list"
  in_buf :: "byte list"
  in_size :: nat

definition BIO_ctrl_get_write_guarantee :: "bio_pair \<Rightarrow> nat" where
  "BIO_ctrl_get_write_guarantee b = in_size b - length (in_buf b)"

definition BIO_ctrl_pending :: "bio_pair \<Rightarrow> nat" where
  "BIO_ctrl_pending b = length (out_buf b)"

text \<open>
  A read of an empty buffer returns \<open>-1\<close> (retry); otherwise it takes the first
  \<open>min n (length out_buf)\<close> bytes.
\<close>

definition BIO_read_net :: "bio_pair \<Rightarrow> int \<Rightarrow> int \<times> byte list \<times> bio_pair" where
  "BIO_read_net b n =
     (if n \<le> 0 then (0, [], b)
      else if out_buf b = [] then (-1, [], b)
      else (let k = min (nat n) (length (out_buf b))
            in (int k, take k (out_buf b), b\<lparr>out_buf := drop k (out_buf b)\<rparr>)))"

text \<open>
  A write to a full buffer returns \<open>-1\<close> (retry); otherwise it stores the first
  \<open>min n (in_size - length in_buf)\<close> bytes of \<open>buf\<close>.
\<close>

definition BIO_write_net :: "bio_pair \<Rightarrow> byte list \<Rightarrow> int \<Rightarrow> int \<times> bio_pair" where
  "BIO_write_net b buf n =
     (if n \<le> 0 then (0, b)
      else if in_size b \<le> length (in_buf b) then (-1, b)
      else (let k = min (nat n) (in_size b - length (in_buf b))
            in (int k, b\<lparr>in_buf := in_buf b @ take k buf\<rparr>)))"

subsection \<open>Demo 5: the wrappers\<close>

record 's APP_CONN_mem = "'s APP_CONN" +
  net_bio :: bio_pair

text \<open>
  In demo 5 the engine reads and writes the BIO pair, so its entry points work on the
  engine state together with the pair.

  \<^verbatim>\<open>int tx(APP_CONN *conn, const void *buf, int buf_len)\<close> of demo 5: the flag is not
  touched before the call; it is set in the case \<^verbatim>\<open>SSL_ERROR_WANT_READ\<close> and cleared
  in the \<^verbatim>\<open>else\<close> branch of \<^verbatim>\<open>if (l <= 0)\<close>.
\<close>

definition tx_mem ::
  "('s \<times> bio_pair) engine \<Rightarrow> 's APP_CONN_mem \<Rightarrow> byte list \<Rightarrow> int \<Rightarrow> int \<times> 's APP_CONN_mem" where
  "tx_mem E conn buf buf_len =
     (let (l, s, b) = BIO_write E (ssl conn, net_bio conn) buf buf_len;
          conn1 = conn\<lparr>ssl := s, net_bio := b\<rparr>
      in if l \<le> 0 then
           (let rc = SSL_get_error E (ssl conn1, net_bio conn1) l
            in if rc = SSL_ERROR_WANT_READ then (-2, conn1\<lparr>tx_need_rx := 1\<rparr>)
               else if rc = SSL_ERROR_WANT_CONNECT \<or> rc = SSL_ERROR_WANT_WRITE then (-2, conn1)
               else (-1, conn1))
         else (l, conn1\<lparr>tx_need_rx := 0\<rparr>))"

definition rx_mem ::
  "('s \<times> bio_pair) engine \<Rightarrow> 's APP_CONN_mem \<Rightarrow> int \<Rightarrow> int \<times> byte list \<times> 's APP_CONN_mem" where
  "rx_mem E conn buf_len =
     (let (l, buf, s, b) = BIO_read E (ssl conn, net_bio conn) buf_len;
          conn1 = conn\<lparr>ssl := s, net_bio := b\<rparr>
      in if l \<le> 0 then
           (let rc = SSL_get_error E (ssl conn1, net_bio conn1) l
            in if rc = SSL_ERROR_WANT_WRITE then (-2, buf, conn1\<lparr>rx_need_tx := 1\<rparr>)
               else if rc = SSL_ERROR_WANT_READ then (-2, buf, conn1)
               else (-1, buf, conn1))
         else (l, buf, conn1\<lparr>rx_need_tx := 0\<rparr>))"

text \<open>
  \<^verbatim>\<open>read_net_tx\<close>, \<^verbatim>\<open>write_net_rx\<close>, \<^verbatim>\<open>net_rx_space\<close> and \<^verbatim>\<open>net_tx_avail\<close>
  pass their arguments to the call on \<^verbatim>\<open>conn->net_bio\<close>.
\<close>

definition read_net_tx :: "'s APP_CONN_mem \<Rightarrow> int \<Rightarrow> int \<times> byte list \<times> 's APP_CONN_mem" where
  "read_net_tx conn buf_len =
     (let (l, buf, b) = BIO_read_net (net_bio conn) buf_len in (l, buf, conn\<lparr>net_bio := b\<rparr>))"

definition write_net_rx :: "'s APP_CONN_mem \<Rightarrow> byte list \<Rightarrow> int \<Rightarrow> int \<times> 's APP_CONN_mem" where
  "write_net_rx conn buf buf_len =
     (let (l, b) = BIO_write_net (net_bio conn) buf buf_len in (l, conn\<lparr>net_bio := b\<rparr>))"

definition net_rx_space :: "'s APP_CONN_mem \<Rightarrow> nat" where
  "net_rx_space conn = BIO_ctrl_get_write_guarantee (net_bio conn)"

definition net_tx_avail :: "'s APP_CONN_mem \<Rightarrow> nat" where
  "net_tx_avail conn = BIO_ctrl_pending (net_bio conn)"

subsection \<open>Demo 5: the real transport and the pump\<close>

text \<open>
  The pump calls \<^verbatim>\<open>poll\<close>, \<^verbatim>\<open>read\<close> and \<^verbatim>\<open>write\<close> on the socket. The socket is
  a state of an arbitrary type \<open>'t\<close> and the three system calls are parameters, so a
  theorem about the pump holds for every behaviour of the network.
  \<^item> \<open>sys_poll t events timeout\<close> returns \<^verbatim>\<open>poll\<close>'s result and \<^verbatim>\<open>pfd.revents\<close>.
  \<^item> \<open>sys_read t n\<close> returns the bytes read and \<^verbatim>\<open>errno\<close>. The pump only tests
    \<^verbatim>\<open>l <= 0\<close> and then \<^verbatim>\<open>errno\<close>, so a result \<open>l \<le> 0\<close> (end of file or
    error) is the empty byte list, and a result \<open>l > 0\<close> is a list of \<open>l\<close> bytes.
  \<^item> \<open>sys_write t buf\<close> returns \<^verbatim>\<open>write\<close>'s result \<open>l2\<close>.
  A world holds the socket, the system calls made so far and the lines printed to
  \<^verbatim>\<open>stderr\<close>.
\<close>

record read_result =
  rd_data :: "byte list"
  rd_errno :: int

record 't transport =
  sys_poll :: "'t \<Rightarrow> int \<Rightarrow> int \<Rightarrow> (int \<times> int) \<times> 't"
  sys_read :: "'t \<Rightarrow> nat \<Rightarrow> read_result \<times> 't"
  sys_write :: "'t \<Rightarrow> byte list \<Rightarrow> int \<times> 't"

datatype syscall = Sys_poll int int | Sys_read nat | Sys_write "byte list"

text \<open>
  The three \<^verbatim>\<open>fprintf(stderr, ...)\<close> lines of the pump:
  \<^verbatim>\<open>"error on read: %d\n"\<close>, \<^verbatim>\<open>"short write %d %d\n"\<close> and \<^verbatim>\<open>"short read %d %d\n"\<close>.
\<close>

datatype diag = Error_on_read int | Short_write int int | Short_read int int

record 't world =
  transport_state :: 't
  syscalls :: "syscall list"
  stderr :: "diag list"

definition do_poll :: "'t transport \<Rightarrow> 't world \<Rightarrow> int \<Rightarrow> int \<Rightarrow> (int \<times> int) \<times> 't world" where
  "do_poll T w events timeout =
     (let (r, t) = sys_poll T (transport_state w) events timeout
      in (r, w\<lparr>transport_state := t, syscalls := syscalls w @ [Sys_poll events timeout]\<rparr>))"

definition do_read :: "'t transport \<Rightarrow> 't world \<Rightarrow> nat \<Rightarrow> read_result \<times> 't world" where
  "do_read T w n =
     (let (r, t) = sys_read T (transport_state w) n
      in (r, w\<lparr>transport_state := t, syscalls := syscalls w @ [Sys_read n]\<rparr>))"

definition do_write :: "'t transport \<Rightarrow> 't world \<Rightarrow> byte list \<Rightarrow> int \<times> 't world" where
  "do_write T w buf =
     (let (r, t) = sys_write T (transport_state w) buf
      in (r, w\<lparr>transport_state := t, syscalls := syscalls w @ [Sys_write buf]\<rparr>))"

definition fprintf_stderr :: "diag \<Rightarrow> 't world \<Rightarrow> 't world" where
  "fprintf_stderr m w = w\<lparr>stderr := stderr w @ [m]\<rparr>"

text \<open>
  The loop under \<^verbatim>\<open>if (pfd.revents & POLLIN)\<close>. It ends at \<^verbatim>\<open>stop:\<close> when there is
  no space left or \<^verbatim>\<open>errno\<close> is \<^verbatim>\<open>EAGAIN\<close> (first component \<open>True\<close>), or leaves the
  pump with \<^verbatim>\<open>return -1\<close> (first component \<open>False\<close>). A short write into the BIO is
  printed and the loop goes on.
\<close>

function read_loop ::
  "'t transport \<Rightarrow> 's APP_CONN_mem \<Rightarrow> 't world \<Rightarrow> bool \<times> 's APP_CONN_mem \<times> 't world" where
  "read_loop T conn w =
     (let wspace = net_rx_space conn
      in if wspace > 0 then
           (let (r, w1) = do_read T w (if wspace > 2048 then 2048 else wspace);
                l = int (length (rd_data r))
            in if l \<le> 0 then
                 (if rd_errno r = EAGAIN then (True, conn, w1)
                  else (False, conn, fprintf_stderr (Error_on_read (rd_errno r)) w1))
               else
                 (let (l2, conn1) = write_net_rx conn (rd_data r) l
                  in read_loop T conn1
                       (if l2 < l then fprintf_stderr (Short_write l2 l) w1 else w1)))
         else (True, conn, w))"
  by pat_completeness auto
termination
  apply (relation "measure (\<lambda>(T, conn, w). net_rx_space conn)")
   apply simp
  apply (auto simp: net_rx_space_def write_net_rx_def BIO_write_net_def
                    BIO_ctrl_get_write_guarantee_def Let_def min_def
              simp flip: length_greater_0_conv split: if_splits prod.splits)
  done

text \<open>
  The loop under \<^verbatim>\<open>if (pfd.revents & POLLOUT)\<close>: \<^verbatim>\<open>for (;;)\<close>, left by \<^verbatim>\<open>break\<close>
  when \<^verbatim>\<open>read_net_tx\<close> returns \<open>l \<le> 0\<close>. When \<^verbatim>\<open>write\<close> returns \<open>l2 < l\<close> the
  line \<^verbatim>\<open>"short read %d %d\n"\<close> is printed and the loop goes on.
\<close>

function drain_loop ::
  "'t transport \<Rightarrow> 's APP_CONN_mem \<Rightarrow> 't world \<Rightarrow> 's APP_CONN_mem \<times> 't world" where
  "drain_loop T conn w =
     (let (l, buf, conn1) = read_net_tx conn 2048
      in if l \<le> 0 then (conn1, w)
         else (let (l2, w1) = do_write T w buf
               in drain_loop T conn1
                    (if l2 < l then fprintf_stderr (Short_read l2 l) w1 else w1)))"
  by pat_completeness auto
termination
  apply (relation "measure (\<lambda>(T, conn, w). net_tx_avail conn)")
   apply simp
  apply (auto simp: net_tx_avail_def read_net_tx_def BIO_read_net_def BIO_ctrl_pending_def
                    Let_def split: if_splits prod.splits)
  done

text \<open>
  The event mask the pump hands to \<^verbatim>\<open>poll\<close>:
  \<^verbatim>\<open>pfd.events = (events & (POLLIN | POLLERR));\<close>
  \<^verbatim>\<open>if (net_rx_space(conn) == 0) pfd.events &= ~POLLIN;\<close>
  \<^verbatim>\<open>if (net_tx_avail(conn) > 0) pfd.events |= POLLOUT;\<close>
\<close>

definition pump_events :: "'s APP_CONN_mem \<Rightarrow> int \<Rightarrow> int" where
  "pump_events conn events =
     (let e0 = events AND (POLLIN OR POLLERR);
          e1 = (if net_rx_space conn = 0 then e0 AND NOT POLLIN else e0)
      in if net_tx_avail conn > 0 then e1 OR POLLOUT else e1)"

text \<open>
  \<^verbatim>\<open>static int pump(APP_CONN *conn, int fd, int events, int timeout)\<close>. The socket
  \<^verbatim>\<open>fd\<close> is the transport of the world. The result holds the return value, the
  connection and the world after the call.
\<close>

definition pump ::
  "'t transport \<Rightarrow> 's APP_CONN_mem \<Rightarrow> 't world \<Rightarrow> int \<Rightarrow> int \<Rightarrow> int \<times> 's APP_CONN_mem \<times> 't world" where
  "pump T conn w events timeout =
     (let pfd_events = pump_events conn events
      in if pfd_events AND (POLLIN OR POLLOUT) = 0 then (1, conn, w)
         else
           (let ((n, revents), w1) = do_poll T w pfd_events timeout
            in if n = 0 then (-1, conn, w1)
               else
                 (let (ok, conn1, w2) =
                        (if revents AND POLLIN \<noteq> 0 then read_loop T conn w1 else (True, conn, w1))
                  in if \<not> ok then (-1, conn1, w2)
                     else
                       (let (conn2, w3) =
                              (if revents AND POLLOUT \<noteq> 0 then drain_loop T conn1 w2
                               else (conn1, w2))
                        in (1, conn2, w3)))))"

text \<open>
  The trace of the drain loop. Each turn of the loop takes at most 2048 bytes from
  the front of \<^verbatim>\<open>net_bio\<close> and hands them to \<^verbatim>\<open>write\<close>, so the buffers handed over
  are the \<open>chunks\<close> of what waited; \<open>write_results\<close> gives what the socket answers
  to each of them in turn, and \<open>short_writes\<close> the lines the loop prints for the
  answers that fall short of the chunk.
\<close>

function chunks :: "nat \<Rightarrow> 'a list \<Rightarrow> 'a list list" where
  "chunks n xs = (if n = 0 \<or> xs = [] then [] else take n xs # chunks n (drop n xs))"
  by pat_completeness auto
termination
  by (relation "measure (\<lambda>(n, xs). length xs)") auto

declare chunks.simps [simp del]

fun write_results :: "'t transport \<Rightarrow> 't \<Rightarrow> byte list list \<Rightarrow> int list" where
  "write_results T t [] = []"
| "write_results T t (c # cs) = fst (sys_write T t c) # write_results T (snd (sys_write T t c)) cs"

definition short_writes :: "(byte list \<times> int) list \<Rightarrow> diag list" where
  "short_writes rs =
     map (\<lambda>(c, l2). Short_read l2 (int (length c)))
       (filter (\<lambda>(c, l2). l2 < int (length c)) rs)"

subsection \<open>Allocation and release\<close>

text \<open>
  \<^verbatim>\<open>new_conn\<close> and \<^verbatim>\<open>teardown\<close> allocate and release the objects of one
  connection: the \<^verbatim>\<open>APP_CONN\<close> record, the \<^verbatim>\<open>SSL\<close> object, the two halves of
  the BIO pair and the SSL filter BIO. A heap holds the objects that are allocated,
  who owns which BIO, and the history of close notifications and releases.

  The library calls are not part of the repository; their effect on the heap follows
  libssl 3.0 (\<^verbatim>\<open>ssl_lib.c\<close>, \<^verbatim>\<open>bio_ssl.c\<close>, \<^verbatim>\<open>bio_lib.c\<close>) and the manual pages:
  \<^item> \<^verbatim>\<open>SSL_set_bio\<close> gives the SSL object a reference to the BIO (\<open>ssl_bios\<close>), and
    \<^verbatim>\<open>SSL_free\<close> releases the SSL object and drops its references; a BIO is released
    when its last reference is dropped;
  \<^item> the other half of a BIO pair is not released with the first
    (\<^verbatim>\<open>BIO_s_bio(3)\<close>: both halves must be freed);
  \<^item> \<^verbatim>\<open>BIO_set_ssl(ssl_bio, ssl, BIO_CLOSE)\<close> passes the SSL object to the filter BIO
    and makes the BIO of the SSL object the next BIO of the filter, with a reference
    of the filter's own (\<open>ssl_bio_next\<close>);
  \<^item> when the filter BIO is freed and holds the SSL object, it calls
    \<^verbatim>\<open>SSL_shutdown\<close> only if the handshake is done (\<^verbatim>\<open>SSL_in_init\<close> is false) and then
    \<^verbatim>\<open>SSL_free\<close>; \<^verbatim>\<open>BIO_free_all\<close> then goes on to the BIOs behind the filter.
  In demo 4 the socket BIO that \<^verbatim>\<open>SSL_set_fd\<close> makes is part of the engine.
\<close>

datatype resource = R_conn | R_ssl | R_internal_bio | R_net_bio | R_ssl_bio

datatype event = Close_notify int | Released resource

record heap =
  live :: "resource set"
  ssl_bios :: "resource list"
  ssl_bio_holds_ssl :: bool
  ssl_bio_next :: "resource list"
  history :: "event list"

definition alloc :: "resource \<Rightarrow> heap \<Rightarrow> heap" where
  "alloc r h = h\<lparr>live := insert r (live h)\<rparr>"

definition release :: "resource \<Rightarrow> heap \<Rightarrow> heap" where
  "release r h = h\<lparr>live := live h - {r}, history := history h @ [Released r]\<rparr>"

definition calloc :: "heap \<Rightarrow> heap" where
  "calloc h = alloc R_conn h"

definition free :: "heap \<Rightarrow> heap" where
  "free h = release R_conn h"

definition SSL_new :: "heap \<Rightarrow> heap" where
  "SSL_new h = (alloc R_ssl h)\<lparr>ssl_bios := []\<rparr>"

text \<open>\<open>SSL_shutdown r\<close>: the close notification is attempted and the call returns \<open>r\<close>.\<close>

definition SSL_shutdown :: "int \<Rightarrow> heap \<Rightarrow> heap" where
  "SSL_shutdown r h = h\<lparr>history := history h @ [Close_notify r]\<rparr>"

text \<open>
  \<open>SSL_free\<close> releases the SSL object; of its BIOs it releases those that the filter
  BIO holds no reference to.
\<close>

definition SSL_free :: "heap \<Rightarrow> heap" where
  "SSL_free h =
     (fold release (filter (\<lambda>b. b \<notin> set (ssl_bio_next h)) (ssl_bios h)) (release R_ssl h))
       \<lparr>ssl_bios := []\<rparr>"

definition BIO_new_bio_pair :: "heap \<Rightarrow> heap" where
  "BIO_new_bio_pair h = alloc R_net_bio (alloc R_internal_bio h)"

definition SSL_set_bio :: "heap \<Rightarrow> heap" where
  "SSL_set_bio h = h\<lparr>ssl_bios := [R_internal_bio]\<rparr>"

definition BIO_new_ssl :: "heap \<Rightarrow> heap" where
  "BIO_new_ssl h = (alloc R_ssl_bio h)\<lparr>ssl_bio_holds_ssl := False, ssl_bio_next := []\<rparr>"

definition BIO_set_ssl :: "heap \<Rightarrow> heap" where
  "BIO_set_ssl h = h\<lparr>ssl_bio_holds_ssl := True, ssl_bio_next := ssl_bios h\<rparr>"

text \<open>
  \<^verbatim>\<open>BIO_free(ssl_bio)\<close> frees the filter BIO alone. \<open>in_init\<close> says whether the
  handshake of the SSL object is still to be done (\<^verbatim>\<open>SSL_in_init\<close>), and \<open>r\<close> is
  what the \<^verbatim>\<open>SSL_shutdown\<close> inside returns when it is called.
\<close>

definition BIO_free_ssl_bio :: "bool \<Rightarrow> int \<Rightarrow> heap \<Rightarrow> heap" where
  "BIO_free_ssl_bio in_init r h =
     release R_ssl_bio
       (if ssl_bio_holds_ssl h
        then (SSL_free (if in_init then h else SSL_shutdown r h))\<lparr>ssl_bio_holds_ssl := False\<rparr>
        else h)"

text \<open>
  \<^verbatim>\<open>BIO_free_all(ssl_bio)\<close> frees the filter BIO and then drops the filter's
  references to the BIOs behind it.
\<close>

definition BIO_free_all_ssl_bio :: "bool \<Rightarrow> int \<Rightarrow> heap \<Rightarrow> heap" where
  "BIO_free_all_ssl_bio in_init r h =
     (let h1 = BIO_free_ssl_bio in_init r h
      in (fold release (ssl_bio_next h1) h1)\<lparr>ssl_bio_next := []\<rparr>)"

definition BIO_free_all_net_bio :: "heap \<Rightarrow> heap" where
  "BIO_free_all_net_bio h = release R_net_bio h"

text \<open>
  What the fallible library calls of \<^verbatim>\<open>new_conn\<close> answer. \<open>SSL_new_res\<close> is the
  state of the new engine (\<open>None\<close> for \<^verbatim>\<open>NULL\<close>); a call that fails allocates
  nothing.
\<close>

record 's answers =
  calloc_ok :: bool
  SSL_new_res :: "'s option"
  SSL_set_fd_ret :: int
  BIO_new_bio_pair_ret :: int
  SSL_set1_host_ret :: int
  SSL_set_tlsext_host_name_ret :: int
  BIO_new_ok :: bool
  BIO_set_ssl_ret :: int

text \<open>
  \<^verbatim>\<open>APP_CONN *new_conn(SSL_CTX *ctx, int fd, const char *bare_hostname)\<close> of demo 4.
  \<^verbatim>\<open>calloc\<close> zeroes the record, so both flags start at 0.
\<close>

definition new_conn :: "'s answers \<Rightarrow> heap \<Rightarrow> int \<Rightarrow> 's APP_CONN_fd option \<times> heap" where
  "new_conn L h fd_arg =
     (if \<not> calloc_ok L then (None, h)
      else
        (let h1 = calloc h
         in case SSL_new_res L of
              None \<Rightarrow> (None, free h1)
            | Some s \<Rightarrow>
                (let h2 = SSL_new h1
                 in if SSL_set_fd_ret L \<le> 0 then (None, free (SSL_free h2))
                    else if SSL_set1_host_ret L \<le> 0 then (None, free (SSL_free h2))
                    else if SSL_set_tlsext_host_name_ret L \<le> 0 then (None, free (SSL_free h2))
                    else (Some \<lparr>ssl = s, rx_need_tx = 0, tx_need_rx = 0, fd = fd_arg\<rparr>, h2))))"

text \<open>
  \<^verbatim>\<open>APP_CONN *new_conn(SSL_CTX *ctx, const char *bare_hostname)\<close> of demo 5. The pair
  is made with the default buffer size of OpenSSL, \<open>17 * 1024\<close> bytes. The last
  failure path calls \<^verbatim>\<open>SSL_free(ssl); BIO_free(ssl_bio);\<close> and returns; the filter
  BIO freed there holds no SSL object, so the two arguments of \<open>BIO_free_ssl_bio\<close>
  play no part.
\<close>

definition new_conn_mem :: "'s answers \<Rightarrow> heap \<Rightarrow> 's APP_CONN_mem option \<times> heap" where
  "new_conn_mem L h =
     (if \<not> calloc_ok L then (None, h)
      else
        (let h1 = calloc h
         in case SSL_new_res L of
              None \<Rightarrow> (None, free h1)
            | Some s \<Rightarrow>
                (let h2 = SSL_new h1
                 in if BIO_new_bio_pair_ret L \<le> 0 then (None, free (SSL_free h2))
                    else
                      (let h3 = SSL_set_bio (BIO_new_bio_pair h2)
                       in if SSL_set1_host_ret L \<le> 0 then (None, free (SSL_free h3))
                          else if SSL_set_tlsext_host_name_ret L \<le> 0 then (None, free (SSL_free h3))
                          else if \<not> BIO_new_ok L then (None, free (SSL_free h3))
                          else
                            (let h4 = BIO_new_ssl h3
                             in if BIO_set_ssl_ret L \<le> 0
                                then (None, BIO_free_ssl_bio True 0 (SSL_free h4))
                                else (Some \<lparr>ssl = s, rx_need_tx = 0, tx_need_rx = 0,
                                             net_bio = \<lparr>out_buf = [], in_buf = [], in_size = 17 * 1024\<rparr>\<rparr>,
                                      BIO_set_ssl h4))))))"



subsection \<open>Event masks as event sets\<close>

text \<open>
  The specification speaks of event sets; the code of bit masks. \<open>event_set\<close> reads
  a mask as the set of the three events it can hold.
\<close>

datatype poll_event = Readable | Writable | Error

definition event_set :: "int \<Rightarrow> poll_event set" where
  "event_set m =
     (if m AND POLLIN \<noteq> 0 then {Readable} else {}) \<union>
     (if m AND POLLOUT \<noteq> 0 then {Writable} else {}) \<union>
     (if m AND POLLERR \<noteq> 0 then {Error} else {})"

subsection \<open>Concrete engines, sockets and connections\<close>

text \<open>
  A scripted engine answers each call with the next pair \<open>(l, rc)\<close> of its script:
  the call returns \<open>l\<close> and \<open>SSL_get_error\<close> then returns \<open>rc\<close>. The theorems
  below are instantiated with it.
\<close>

type_synonym script = "(int \<times> int) list \<times> int"

definition script_step :: "script \<Rightarrow> int \<times> script" where
  "script_step s =
     (case fst s of
        [] \<Rightarrow> (-1, ([], SSL_ERROR_SYSCALL))
      | (l, rc) # rest \<Rightarrow> (l, (rest, rc)))"

definition scripted :: "script engine" where
  "scripted =
     \<lparr>SSL_write = (\<lambda>s buf n. script_step s),
      SSL_read = (\<lambda>s n. (fst (script_step s), replicate (nat (fst (script_step s))) 0,
                           snd (script_step s))),
      BIO_write = (\<lambda>s buf n. script_step s),
      BIO_read = (\<lambda>s n. (fst (script_step s), replicate (nat (fst (script_step s))) 0,
                           snd (script_step s))),
      SSL_get_error = (\<lambda>s l. snd s)\<rparr>"

definition scripted_mem :: "(script \<times> bio_pair) engine" where
  "scripted_mem =
     \<lparr>SSL_write = (\<lambda>(s, b) buf n. (fst (script_step s), snd (script_step s), b)),
      SSL_read = (\<lambda>(s, b) n. (fst (script_step s), replicate (nat (fst (script_step s))) 0,
                                snd (script_step s), b)),
      BIO_write = (\<lambda>(s, b) buf n. (fst (script_step s), snd (script_step s), b)),
      BIO_read = (\<lambda>(s, b) n. (fst (script_step s), replicate (nat (fst (script_step s))) 0,
                                snd (script_step s), b)),
      SSL_get_error = (\<lambda>(s, b) l. snd s)\<rparr>"

definition conn_fd :: "script \<Rightarrow> script APP_CONN_fd" where
  "conn_fd s = \<lparr>ssl = s, rx_need_tx = 0, tx_need_rx = 0, fd = 3\<rparr>"

definition conn_mem :: "'s \<Rightarrow> int \<Rightarrow> int \<Rightarrow> bio_pair \<Rightarrow> 's APP_CONN_mem" where
  "conn_mem s r t b = \<lparr>ssl = s, rx_need_tx = r, tx_need_rx = t, net_bio = b\<rparr>"

definition empty_pair :: bio_pair where
  "empty_pair = \<lparr>out_buf = [], in_buf = [], in_size = 17 * 1024\<rparr>"

text \<open>
  A socket that is always ready to be written, has nothing to read, and takes one byte
  per \<^verbatim>\<open>write\<close>.
\<close>

definition slow_socket :: "unit transport" where
  "slow_socket =
     \<lparr>sys_poll = (\<lambda>t events timeout. ((1, POLLOUT), t)),
      sys_read = (\<lambda>t n. (\<lparr>rd_data = [], rd_errno = EAGAIN\<rparr>, t)),
      sys_write = (\<lambda>t buf. (1, t))\<rparr>"

definition quiet_world :: "unit world" where
  "quiet_world = \<lparr>transport_state = (), syscalls = [], stderr = []\<rparr>"

definition empty_heap :: heap where
  "empty_heap =
     \<lparr>live = {}, ssl_bios = [], ssl_bio_holds_ssl = False, ssl_bio_next = [], history = []\<rparr>"

definition all_ok :: "unit answers" where
  "all_ok =
     \<lparr>calloc_ok = True, SSL_new_res = Some (), SSL_set_fd_ret = 1, BIO_new_bio_pair_ret = 1,
      SSL_set1_host_ret = 1, SSL_set_tlsext_host_name_ret = 1, BIO_new_ok = True,
      BIO_set_ssl_ret = 1\<rparr>"

lemmas fixture_defs =
  script_step_def scripted_def scripted_mem_def conn_fd_def conn_mem_def empty_pair_def
  slow_socket_def quiet_world_def empty_heap_def all_ok_def

section \<open>Properties\<close>

subsection \<open>What a wrapper returns and leaves in the connection\<close>

lemma tx_outcome:
  assumes "SSL_write E (ssl conn) buf buf_len = (l, s)" and "SSL_get_error E s l = rc"
  shows "tx E conn buf buf_len =
           (if 0 < l then (l, conn\<lparr>ssl := s, tx_need_rx := 0\<rparr>)
            else if rc = SSL_ERROR_WANT_READ then (-2, conn\<lparr>ssl := s, tx_need_rx := 1\<rparr>)
            else if rc = SSL_ERROR_WANT_CONNECT \<or> rc = SSL_ERROR_WANT_WRITE
              then (-2, conn\<lparr>ssl := s, tx_need_rx := 0\<rparr>)
            else (-1, conn\<lparr>ssl := s, tx_need_rx := 0\<rparr>))"
  using assms by (auto simp: tx_def Let_def)

lemma rx_outcome:
  assumes "SSL_read E (ssl conn) buf_len = (l, buf, s)" and "SSL_get_error E s l = rc"
  shows "rx E conn buf_len =
           (if 0 < l then (l, buf, conn\<lparr>ssl := s, rx_need_tx := 0\<rparr>)
            else if rc = SSL_ERROR_WANT_WRITE then (-2, buf, conn\<lparr>ssl := s, rx_need_tx := 1\<rparr>)
            else if rc = SSL_ERROR_WANT_READ then (-2, buf, conn\<lparr>ssl := s, rx_need_tx := 0\<rparr>)
            else (-1, buf, conn\<lparr>ssl := s, rx_need_tx := 0\<rparr>))"
  using assms by (auto simp: rx_def Let_def)

lemma tx_mem_outcome:
  assumes "BIO_write E (ssl conn, net_bio conn) buf buf_len = (l, s, b)"
      and "SSL_get_error E (s, b) l = rc"
  shows "tx_mem E conn buf buf_len =
           (if 0 < l then (l, conn\<lparr>ssl := s, tx_need_rx := 0, net_bio := b\<rparr>)
            else if rc = SSL_ERROR_WANT_READ then (-2, conn\<lparr>ssl := s, tx_need_rx := 1, net_bio := b\<rparr>)
            else if rc = SSL_ERROR_WANT_CONNECT \<or> rc = SSL_ERROR_WANT_WRITE
              then (-2, conn\<lparr>ssl := s, net_bio := b\<rparr>)
            else (-1, conn\<lparr>ssl := s, net_bio := b\<rparr>))"
  using assms by (auto simp: tx_mem_def Let_def)

lemma rx_mem_outcome:
  assumes "BIO_read E (ssl conn, net_bio conn) buf_len = (l, buf, s, b)"
      and "SSL_get_error E (s, b) l = rc"
  shows "rx_mem E conn buf_len =
           (if 0 < l then (l, buf, conn\<lparr>ssl := s, rx_need_tx := 0, net_bio := b\<rparr>)
            else if rc = SSL_ERROR_WANT_WRITE then (-2, buf, conn\<lparr>ssl := s, rx_need_tx := 1, net_bio := b\<rparr>)
            else if rc = SSL_ERROR_WANT_READ then (-2, buf, conn\<lparr>ssl := s, net_bio := b\<rparr>)
            else (-1, buf, conn\<lparr>ssl := s, net_bio := b\<rparr>))"
  using assms by (auto simp: rx_mem_def Let_def)

subsection \<open>The value \<open>tx\<close> returns\<close>




subsection \<open>The value \<open>rx\<close> returns\<close>

lemma rx_value:
  assumes "SSL_read E (ssl c) n = (l, buf, s)" and "SSL_get_error E s l = rc"
  shows "fst (rx E c n) =
           (if 0 < l then l
            else if rc = SSL_ERROR_WANT_WRITE \<or> rc = SSL_ERROR_WANT_READ then -2 else -1)"
  by (simp add: rx_outcome [OF assms])

lemma rx_mem_value:
  assumes "BIO_read M (ssl m, net_bio m) n = (l, buf, s, b)" and "SSL_get_error M (s, b) l = rc"
  shows "fst (rx_mem M m n) =
           (if 0 < l then l
            else if rc = SSL_ERROR_WANT_WRITE \<or> rc = SSL_ERROR_WANT_READ then -2 else -1)"
  by (simp add: rx_mem_outcome [OF assms])

subsection \<open>The directional hints after a call\<close>

lemma tx_hint:
  assumes "SSL_write E (ssl c) buf n = (l, s)" and "SSL_get_error E s l = rc"
  shows "(tx_need_rx (snd (tx E c buf n)) \<noteq> 0)
           = (fst (tx E c buf n) = -2 \<and> rc = SSL_ERROR_WANT_READ)"
  by (simp add: tx_outcome [OF assms] ssl_error_defs)

lemma rx_hint:
  assumes "SSL_read E (ssl c) n = (l, buf, s)" and "SSL_get_error E s l = rc"
  shows "(rx_need_tx (snd (snd (rx E c n))) \<noteq> 0)
           = (fst (rx E c n) = -2 \<and> rc = SSL_ERROR_WANT_WRITE)"
  by (simp add: rx_outcome [OF assms] ssl_error_defs)

lemma tx_mem_hint:
  assumes "BIO_write M (ssl m, net_bio m) buf n = (l, s, b)" and "SSL_get_error M (s, b) l = rc"
  shows "tx_need_rx (snd (tx_mem M m buf n)) =
           (if 0 < l then 0
            else if fst (tx_mem M m buf n) = -2 \<and> rc = SSL_ERROR_WANT_READ then 1
            else tx_need_rx m)"
  by (simp add: tx_mem_outcome [OF assms] ssl_error_defs)

lemma rx_mem_hint:
  assumes "BIO_read M (ssl m, net_bio m) n = (l, buf, s, b)" and "SSL_get_error M (s, b) l = rc"
  shows "rx_need_tx (snd (snd (rx_mem M m n))) =
           (if 0 < l then 0
            else if fst (rx_mem M m n) = -2 \<and> rc = SSL_ERROR_WANT_WRITE then 1
            else rx_need_tx m)"
  by (simp add: rx_mem_outcome [OF assms] ssl_error_defs)

subsection \<open>Bits of the event masks\<close>

lemma bit_POLLIN: "bit POLLIN n = (n = 0)"
  by (simp add: POLLIN_def bit_1_iff)

lemma bit_POLLOUT: "bit POLLOUT n = (n = 2)"
proof -
  have "bit ((2::int) ^ 2) n = (n = 2)" by (simp only: bit_exp_iff) simp
  then show ?thesis by (simp add: POLLOUT_def)
qed

lemma bit_POLLERR: "bit POLLERR n = (n = 3)"
proof -
  have "bit ((2::int) ^ 3) n = (n = 3)" by (simp only: bit_exp_iff) simp
  then show ?thesis by (simp add: POLLERR_def)
qed

lemmas bit_poll = bit_POLLIN bit_POLLOUT bit_POLLERR bit_and_iff bit_or_iff bit_not_iff

lemma and_POLLIN: "(m AND POLLIN \<noteq> 0) = bit m 0"
  by (auto simp: bit_eq_iff [of _ "0::int"] bit_poll)

lemma and_POLLOUT: "(m AND POLLOUT \<noteq> 0) = bit m 2"
  by (auto simp: bit_eq_iff [of _ "0::int"] bit_poll)

lemma and_POLLERR: "(m AND POLLERR \<noteq> 0) = bit m 3"
  by (auto simp: bit_eq_iff [of _ "0::int"] bit_poll)

lemma event_set_bits:
  "event_set m = {e. (e = Readable \<and> bit m 0) \<or> (e = Writable \<and> bit m 2) \<or> (e = Error \<and> bit m 3)}"
  by (auto simp: event_set_def and_POLLIN and_POLLOUT and_POLLERR)

lemma bit_pump_events:
  "bit (pump_events conn events) n =
     ((n = 0 \<and> bit events 0 \<and> net_rx_space conn \<noteq> 0)
      \<or> (n = 2 \<and> net_tx_avail conn > 0)
      \<or> (n = 3 \<and> bit events 3))"
  by (auto simp: pump_events_def Let_def bit_poll)

lemma pump_events_idle:
  assumes "net_tx_avail conn = 0" and "net_rx_space conn = 0"
  shows "pump_events conn events AND (POLLIN OR POLLOUT) = 0"
proof (rule bit_eqI)
  fix n
  show "bit (pump_events conn events AND (POLLIN OR POLLOUT)) n = bit (0::int) n"
    using assms by (auto simp: bit_pump_events bit_poll)
qed

lemma event_set_pump_events:
  "event_set (pump_events conn events) =
     ((event_set events \<inter> {Readable, Error}) - (if net_rx_space conn = 0 then {Readable} else {}))
       \<union> (if net_tx_avail conn > 0 then {Writable} else {})"
  by (auto simp: event_set_bits bit_pump_events)

subsection \<open>The loops of the pump\<close>

lemma fprintf_simps [simp]:
  "syscalls (fprintf_stderr m w) = syscalls w"
  "stderr (fprintf_stderr m w) = stderr w @ [m]"
  "transport_state (fprintf_stderr m w) = transport_state w"
  by (simp_all add: fprintf_stderr_def)

declare read_loop.simps [simp del] drain_loop.simps [simp del]

lemma read_loop_stop: "net_rx_space conn = 0 \<Longrightarrow> read_loop T conn w = (True, conn, w)"
  by (subst read_loop.simps) simp

lemma read_loop_fail:
  assumes "0 < net_rx_space conn"
      and "do_read T w (if net_rx_space conn > 2048 then 2048 else net_rx_space conn) = (r, w1)"
      and "rd_data r = []"
  shows "read_loop T conn w =
           (if rd_errno r = EAGAIN then (True, conn, w1)
            else (False, conn, fprintf_stderr (Error_on_read (rd_errno r)) w1))"
  using assms by (subst read_loop.simps) (simp add: Let_def)

lemma read_loop_step:
  assumes "0 < net_rx_space conn"
      and "do_read T w (if net_rx_space conn > 2048 then 2048 else net_rx_space conn) = (r, w1)"
      and "rd_data r \<noteq> []"
      and "write_net_rx conn (rd_data r) (int (length (rd_data r))) = (l2, conn1)"
  shows "read_loop T conn w =
           read_loop T conn1
             (if l2 < int (length (rd_data r))
              then fprintf_stderr (Short_write l2 (int (length (rd_data r)))) w1 else w1)"
  using assms by (subst read_loop.simps) (simp add: Let_def)

lemma read_loop_cases_induct [case_names stop fail step]:
  assumes stop: "\<And>T conn w. net_rx_space conn = 0 \<Longrightarrow> P T conn w"
      and fail: "\<And>T conn w r w1.
                   0 < net_rx_space conn \<Longrightarrow>
                   do_read T w (if net_rx_space conn > 2048 then 2048 else net_rx_space conn) = (r, w1) \<Longrightarrow>
                   rd_data r = [] \<Longrightarrow> P T conn w"
      and step: "\<And>T conn w r w1 l2 conn1.
                   0 < net_rx_space conn \<Longrightarrow>
                   do_read T w (if net_rx_space conn > 2048 then 2048 else net_rx_space conn) = (r, w1) \<Longrightarrow>
                   rd_data r \<noteq> [] \<Longrightarrow>
                   write_net_rx conn (rd_data r) (int (length (rd_data r))) = (l2, conn1) \<Longrightarrow>
                   P T conn1
                     (if l2 < int (length (rd_data r))
                      then fprintf_stderr (Short_write l2 (int (length (rd_data r)))) w1 else w1) \<Longrightarrow>
                   P T conn w"
  shows "P T conn w"
proof (induction T conn w rule: read_loop.induct)
  case (1 T conn w)
  show ?case
  proof (cases "net_rx_space conn = 0")
    case True
    then show ?thesis by (rule stop)
  next
    case False
    then have pos: "0 < net_rx_space conn" by simp
    obtain r w1 where rd:
      "do_read T w (if net_rx_space conn > 2048 then 2048 else net_rx_space conn) = (r, w1)"
      by (cases "do_read T w (if net_rx_space conn > 2048 then 2048 else net_rx_space conn)")
    show ?thesis
    proof (cases "rd_data r = []")
      case True
      with pos rd show ?thesis by (rule fail)
    next
      case False
      obtain l2 conn1 where wr:
        "write_net_rx conn (rd_data r) (int (length (rd_data r))) = (l2, conn1)"
        by (cases "write_net_rx conn (rd_data r) (int (length (rd_data r)))")
      have "P T conn1
              (if l2 < int (length (rd_data r))
               then fprintf_stderr (Short_write l2 (int (length (rd_data r)))) w1 else w1)"
        using "1.IH" [OF refl pos refl rd [symmetric] refl _ refl wr [symmetric]] False by simp
      with pos rd False wr show ?thesis by (rule step)
    qed
  qed
qed

lemma write_net_rx_frame:
  "write_net_rx conn buf l = (l2, conn1) \<Longrightarrow>
   tx_need_rx conn1 = tx_need_rx conn \<and> rx_need_tx conn1 = rx_need_tx conn \<and> ssl conn1 = ssl conn"
  by (auto simp: write_net_rx_def split: prod.splits)

lemma read_loop_frame:
  "tx_need_rx (fst (snd (read_loop T conn w))) = tx_need_rx conn \<and>
   rx_need_tx (fst (snd (read_loop T conn w))) = rx_need_tx conn \<and>
   ssl (fst (snd (read_loop T conn w))) = ssl conn"
proof (induction T conn w rule: read_loop_cases_induct)
  case (stop T conn w)
  then show ?case by (simp add: read_loop_stop)
next
  case (fail T conn w r w1)
  then show ?case by (simp add: read_loop_fail)
next
  case (step T conn w r w1 l2 conn1)
  then show ?case
    using write_net_rx_frame [OF step(4)] by (simp add: read_loop_step [OF step(1-4)])
qed


lemma drain_loop_stop:
  "read_net_tx conn 2048 = (l, buf, conn1) \<Longrightarrow> l \<le> 0 \<Longrightarrow> drain_loop T conn w = (conn1, w)"
  by (subst drain_loop.simps) simp

lemma drain_loop_step:
  assumes "read_net_tx conn 2048 = (l, buf, conn1)" and "0 < l"
      and "do_write T w buf = (l2, w1)"
  shows "drain_loop T conn w =
           drain_loop T conn1 (if l2 < l then fprintf_stderr (Short_read l2 l) w1 else w1)"
  using assms by (subst drain_loop.simps) simp

lemma drain_loop_cases_induct [case_names stop step]:
  assumes stop: "\<And>T conn w l buf conn1.
                   read_net_tx conn 2048 = (l, buf, conn1) \<Longrightarrow> l \<le> 0 \<Longrightarrow> P T conn w"
      and step: "\<And>T conn w l buf conn1 l2 w1.
                   read_net_tx conn 2048 = (l, buf, conn1) \<Longrightarrow> 0 < l \<Longrightarrow>
                   do_write T w buf = (l2, w1) \<Longrightarrow>
                   P T conn1 (if l2 < l then fprintf_stderr (Short_read l2 l) w1 else w1) \<Longrightarrow>
                   P T conn w"
  shows "P T conn w"
proof (induction T conn w rule: drain_loop.induct)
  case (1 T conn w)
  obtain l buf conn1 where rd: "read_net_tx conn 2048 = (l, buf, conn1)"
    by (cases "read_net_tx conn 2048")
  show ?case
  proof (cases "l \<le> 0")
    case True
    with rd show ?thesis by (rule stop)
  next
    case False
    then have pos: "0 < l" by simp
    obtain l2 w1 where wr: "do_write T w buf = (l2, w1)"
      by (cases "do_write T w buf")
    have "P T conn1 (if l2 < l then fprintf_stderr (Short_read l2 l) w1 else w1)"
      using "1.IH" [OF refl rd [symmetric] refl False refl wr [symmetric]] by simp
    with rd pos wr show ?thesis by (rule step)
  qed
qed

lemma read_net_tx_frame:
  "read_net_tx conn n = (l, buf, conn1) \<Longrightarrow>
   tx_need_rx conn1 = tx_need_rx conn \<and> rx_need_tx conn1 = rx_need_tx conn \<and> ssl conn1 = ssl conn"
  by (auto simp: read_net_tx_def split: prod.splits)

lemma drain_loop_frame:
  "tx_need_rx (fst (drain_loop T conn w)) = tx_need_rx conn \<and>
   rx_need_tx (fst (drain_loop T conn w)) = rx_need_tx conn \<and>
   ssl (fst (drain_loop T conn w)) = ssl conn"
proof (induction T conn w rule: drain_loop_cases_induct)
  case (stop T conn w l buf conn1)
  then show ?case
    using read_net_tx_frame [OF stop(1)] by (simp add: drain_loop_stop [OF stop])
next
  case (step T conn w l buf conn1 l2 w1)
  then show ?case
    using read_net_tx_frame [OF step(1)] by (simp add: drain_loop_step [OF step(1-3)])
qed

lemma do_read_log:
  "do_read T w n = (r, w1) \<Longrightarrow> syscalls w1 = syscalls w @ [Sys_read n] \<and> stderr w1 = stderr w"
  by (auto simp: do_read_def split: prod.splits)

lemma do_write_log:
  "do_write T w buf = (l2, w1) \<Longrightarrow> syscalls w1 = syscalls w @ [Sys_write buf] \<and> stderr w1 = stderr w"
  by (auto simp: do_write_def split: prod.splits)

lemma do_poll_log:
  "do_poll T w e t = (r, w1) \<Longrightarrow> syscalls w1 = syscalls w @ [Sys_poll e t] \<and> stderr w1 = stderr w"
  by (auto simp: do_poll_def split: prod.splits)

lemma read_loop_log:
  "prefix (syscalls w) (syscalls (snd (snd (read_loop T conn w)))) \<and>
   prefix (stderr w) (stderr (snd (snd (read_loop T conn w))))"
proof (induction T conn w rule: read_loop_cases_induct)
  case (stop T conn w)
  then show ?case by (simp add: read_loop_stop)
next
  case (fail T conn w r w1)
  then show ?case
    using do_read_log [OF fail(2)] by (simp add: read_loop_fail [OF fail])
next
  case (step T conn w r w1 l2 conn1)
  have "prefix (syscalls w) (syscalls w1)" "prefix (stderr w) (stderr w1)"
    using do_read_log [OF step(2)] by simp_all
  then show ?case
    using step(5) unfolding read_loop_step [OF step(1-4)]
    by (auto split: if_splits elim: prefix_order.trans dest: append_prefixD)
qed

lemma drain_loop_log:
  "prefix (syscalls w) (syscalls (snd (drain_loop T conn w))) \<and>
   prefix (stderr w) (stderr (snd (drain_loop T conn w)))"
proof (induction T conn w rule: drain_loop_cases_induct)
  case (stop T conn w l buf conn1)
  then show ?case by (simp add: drain_loop_stop [OF stop])
next
  case (step T conn w l buf conn1 l2 w1)
  have "prefix (syscalls w) (syscalls w1)" "prefix (stderr w) (stderr w1)"
    using do_write_log [OF step(3)] by simp_all
  then show ?case
    using step(4) unfolding drain_loop_step [OF step(1-3)]
    by (auto split: if_splits elim: prefix_order.trans dest: append_prefixD)
qed

lemma do_read_sys_write [simp]: "do_read (T\<lparr>sys_write := f\<rparr>) w n = do_read T w n"
  by (simp add: do_read_def)

lemma do_poll_sys_write [simp]: "do_poll (T\<lparr>sys_write := f\<rparr>) w e t = do_poll T w e t"
  by (simp add: do_poll_def)

lemma read_loop_sys_write: "read_loop (T\<lparr>sys_write := f\<rparr>) conn w = read_loop T conn w"
proof (induction T conn w rule: read_loop_cases_induct)
  case (stop T conn w)
  then show ?case by (simp add: read_loop_stop)
next
  case (fail T conn w r w1)
  then show ?case by (simp add: read_loop_fail [where r = r and ?w1.0 = w1])
next
  case (step T conn w r w1 l2 conn1)
  have "read_loop (T\<lparr>sys_write := f\<rparr>) conn w =
          read_loop (T\<lparr>sys_write := f\<rparr>) conn1
            (if l2 < int (length (rd_data r))
             then fprintf_stderr (Short_write l2 (int (length (rd_data r)))) w1 else w1)"
    using step(1-4) by (intro read_loop_step) simp_all
  then show ?case using step(5) by (simp add: read_loop_step [OF step(1-4)])
qed

subsection \<open>The pump and the readiness queries\<close>

lemma pump_idle:
  assumes "net_tx_avail conn = 0" and "net_rx_space conn = 0"
  shows "pump T conn w events timeout = (1, conn, w)"
  by (simp add: pump_def pump_events_idle [OF assms])

lemma pump_frame:
  "tx_need_rx (fst (snd (pump T conn w events timeout))) = tx_need_rx conn \<and>
   rx_need_tx (fst (snd (pump T conn w events timeout))) = rx_need_tx conn \<and>
   ssl (fst (snd (pump T conn w events timeout))) = ssl conn"
proof -
  obtain n revents w1 where p: "do_poll T w (pump_events conn events) timeout = ((n, revents), w1)"
    by (cases "do_poll T w (pump_events conn events) timeout") auto
  obtain ok conn1 w2 where r: "read_loop T conn w1 = (ok, conn1, w2)"
    by (cases "read_loop T conn w1") auto
  have r': "tx_need_rx conn1 = tx_need_rx conn \<and> rx_need_tx conn1 = rx_need_tx conn \<and> ssl conn1 = ssl conn"
    using read_loop_frame [of T conn w1] by (simp add: r)
  have d1: "tx_need_rx (fst (drain_loop T conn1 w2)) = tx_need_rx conn \<and>
            rx_need_tx (fst (drain_loop T conn1 w2)) = rx_need_tx conn \<and>
            ssl (fst (drain_loop T conn1 w2)) = ssl conn"
    using drain_loop_frame [of T conn1 w2] r' by simp
  have d2: "tx_need_rx (fst (drain_loop T conn w1)) = tx_need_rx conn \<and>
            rx_need_tx (fst (drain_loop T conn w1)) = rx_need_tx conn \<and>
            ssl (fst (drain_loop T conn w1)) = ssl conn"
    using drain_loop_frame [of T conn w1] by simp
  show ?thesis
    using r' d1 d2 by (simp add: pump_def Let_def p r split: prod.splits)
qed

lemma pending_tx_val:
  "get_conn_pending_tx conn =
     (if tx_need_rx conn \<noteq> 0 then POLLIN OR POLLOUT OR POLLERR else POLLOUT OR POLLERR)"
  by (simp add: get_conn_pending_tx_def)

lemma pending_rx_val:
  "get_conn_pending_rx conn =
     (if rx_need_tx conn \<noteq> 0 then POLLIN OR POLLOUT OR POLLERR else POLLIN OR POLLERR)"
  by (simp add: get_conn_pending_rx_def poll_defs)

lemma event_set_pending_tx:
  "event_set (get_conn_pending_tx conn) =
     {Writable, Error} \<union> (if tx_need_rx conn \<noteq> 0 then {Readable} else {})"
  by (auto simp: event_set_bits get_conn_pending_tx_def bit_poll)

lemma event_set_pending_rx:
  "event_set (get_conn_pending_rx conn) =
     {Readable, Error} \<union> (if rx_need_tx conn \<noteq> 0 then {Writable} else {})"
  by (auto simp: event_set_bits get_conn_pending_rx_def bit_poll)

subsection \<open>What the pump polls for and what it returns\<close>

lemma pump_polls:
  assumes "pump_events conn events AND (POLLIN OR POLLOUT) \<noteq> 0"
  shows "prefix (syscalls w @ [Sys_poll (pump_events conn events) timeout])
           (syscalls (snd (snd (pump T conn w events timeout))))"
proof -
  obtain n revents w1 where p: "do_poll T w (pump_events conn events) timeout = ((n, revents), w1)"
    by (cases "do_poll T w (pump_events conn events) timeout") auto
  have w1: "syscalls w1 = syscalls w @ [Sys_poll (pump_events conn events) timeout]"
    using do_poll_log [OF p] by simp
  obtain ok conn1 w2 where r:
    "(if revents AND POLLIN \<noteq> 0 then read_loop T conn w1 else (True, conn, w1)) = (ok, conn1, w2)"
    by (cases "if revents AND POLLIN \<noteq> 0 then read_loop T conn w1 else (True, conn, w1)") auto
  have w2: "prefix (syscalls w1) (syscalls w2)"
    using read_loop_log [of w1 T conn] r by (auto split: if_splits)
  obtain conn2 w3 where d:
    "(if revents AND POLLOUT \<noteq> 0 then drain_loop T conn1 w2 else (conn1, w2)) = (conn2, w3)"
    by (cases "if revents AND POLLOUT \<noteq> 0 then drain_loop T conn1 w2 else (conn1, w2)") auto
  have w3: "prefix (syscalls w2) (syscalls w3)"
    using drain_loop_log [of w2 T conn1] d by (auto split: if_splits)
  have "prefix (syscalls w1) (syscalls w3)"
    using w2 w3 by (rule prefix_order.trans)
  then show ?thesis
    using assms w2 by (simp add: pump_def Let_def p r d w1 [symmetric])
qed

lemma pump_value_sys_write:
  "fst (pump (T\<lparr>sys_write := f\<rparr>) conn w events timeout) = fst (pump T conn w events timeout)"
  by (simp add: pump_def Let_def read_loop_sys_write split: prod.splits)

subsection \<open>The drain loop, turn by turn\<close>

lemma chunks_Nil [simp]: "chunks n [] = []"
  by (simp add: chunks.simps)

lemma chunks_Cons: "0 < n \<Longrightarrow> xs \<noteq> [] \<Longrightarrow> chunks n xs = take n xs # chunks n (drop n xs)"
  by (subst chunks.simps) simp

lemma concat_chunks: "0 < n \<Longrightarrow> concat (chunks n xs) = xs"
proof (induction n xs rule: chunks.induct)
  case (1 n xs)
  show ?case
  proof (cases "xs = []")
    case True then show ?thesis by simp
  next
    case False
    with 1 show ?thesis by (simp add: chunks_Cons)
  qed
qed

lemma read_net_tx_empty:
  assumes "out_buf (net_bio conn) = []"
  shows "read_net_tx conn 2048 = (-1, [], conn)"
  using assms by (simp add: read_net_tx_def BIO_read_net_def)

lemma read_net_tx_chunk:
  assumes "out_buf (net_bio conn) \<noteq> []"
  shows "read_net_tx conn 2048 =
           (int (length (take 2048 (out_buf (net_bio conn)))), take 2048 (out_buf (net_bio conn)),
            conn\<lparr>net_bio := (net_bio conn)\<lparr>out_buf := drop 2048 (out_buf (net_bio conn))\<rparr>\<rparr>)"
  using assms by (simp add: read_net_tx_def BIO_read_net_def Let_def min_def)

lemma take_chunk_pos: "xs \<noteq> [] \<Longrightarrow> 0 < int (length (take 2048 xs))"
  by (cases xs) simp_all

lemma drain_loop_all:
  "fst (drain_loop T conn w) = conn\<lparr>net_bio := (net_bio conn)\<lparr>out_buf := []\<rparr>\<rparr>
   \<and> syscalls (snd (drain_loop T conn w))
       = syscalls w @ map Sys_write (chunks 2048 (out_buf (net_bio conn)))
   \<and> stderr (snd (drain_loop T conn w))
       = stderr w @ short_writes
           (zip (chunks 2048 (out_buf (net_bio conn)))
                (write_results T (transport_state w) (chunks 2048 (out_buf (net_bio conn)))))"
proof (induction T conn w rule: drain_loop_cases_induct)
  case (stop T conn w l buf conn1)
  have e: "out_buf (net_bio conn) = []"
  proof (rule ccontr)
    assume ne: "out_buf (net_bio conn) \<noteq> []"
    have "l = int (length (take 2048 (out_buf (net_bio conn))))"
      using read_net_tx_chunk [OF ne] stop(1) by simp
    with take_chunk_pos [OF ne] stop(2) show False by linarith
  qed
  have "conn1 = conn" using read_net_tx_empty [OF e] stop(1) by simp
  moreover have "conn\<lparr>net_bio := (net_bio conn)\<lparr>out_buf := []\<rparr>\<rparr> = conn"
    using e by simp
  ultimately show ?case
    by (simp add: drain_loop_stop [OF stop] e short_writes_def)
next
  case (step T conn w l buf conn1 l2 w1)
  let ?out = "out_buf (net_bio conn)"
  have ne: "?out \<noteq> []"
  proof
    assume "?out = []"
    from read_net_tx_empty [OF this] step(1) have "l = -1" by simp
    with step(2) show False by linarith
  qed
  have r: "l = int (length buf)" "buf = take 2048 ?out"
          "conn1 = conn\<lparr>net_bio := (net_bio conn)\<lparr>out_buf := drop 2048 ?out\<rparr>\<rparr>"
    using read_net_tx_chunk [OF ne] step(1) by simp_all
  have c: "chunks 2048 ?out = buf # chunks 2048 (out_buf (net_bio conn1))"
    using ne r by (simp add: chunks_Cons)
  have wr: "l2 = fst (sys_write T (transport_state w) buf)"
           "transport_state w1 = snd (sys_write T (transport_state w) buf)"
           "syscalls w1 = syscalls w @ [Sys_write buf]" "stderr w1 = stderr w"
    using step(3) by (auto simp: do_write_def split: prod.splits)
  show ?case
    using step(4) r(1,3) wr
    by (simp add: drain_loop_step [OF step(1-3)] c short_writes_def)
qed


lemma length_write_results [simp]: "length (write_results T t cs) = length cs"
  by (induction cs arbitrary: t) simp_all

lemma short_write_listed:
  assumes "i < length cs" and "length rs = length cs" and "rs ! i < int (length (cs ! i))"
  shows "Short_read (rs ! i) (int (length (cs ! i))) \<in> set (short_writes (zip cs rs))"
proof -
  have "(cs ! i, rs ! i) \<in> set (zip cs rs)"
    using assms(1,2) by (auto simp: set_zip)
  then show ?thesis
    using assms(3) by (force simp: short_writes_def)
qed

lemma pump_drains:
  assumes "pump_events conn events AND (POLLIN OR POLLOUT) \<noteq> 0"
      and "do_poll T w (pump_events conn events) timeout = ((n, revents), w1)"
      and "n \<noteq> 0"
      and "(if revents AND POLLIN \<noteq> 0 then read_loop T conn w1 else (True, conn, w1))
             = (True, conn1, w2)"
      and "revents AND POLLOUT \<noteq> 0"
  shows "pump T conn w events timeout = (1, drain_loop T conn1 w2)"
  using assms(1,3,5) by (simp add: pump_def Let_def assms(2,4) split: prod.splits)

subsection \<open>Creation and teardown on the heap\<close>

lemmas heap_defs =
  alloc_def release_def calloc_def free_def SSL_new_def SSL_shutdown_def SSL_free_def
  BIO_new_bio_pair_def SSL_set_bio_def BIO_new_ssl_def BIO_set_ssl_def BIO_free_ssl_bio_def
  BIO_free_all_ssl_bio_def BIO_free_all_net_bio_def





lemma new_conn_fails_clean:
  assumes "fst (new_conn L h fd_arg) = None" and "R_conn \<notin> live h" and "R_ssl \<notin> live h"
  shows "live (snd (new_conn L h fd_arg)) = live h"
  using assms by (auto simp: new_conn_def heap_defs Let_def split: if_splits option.splits)

section \<open>The claims\<close>




text \<open>
  C2 (as stated, it fails for demo 5). Demo 5's \<open>tx\<close> does not clear \<open>tx_need_rx\<close>
  at the start of the call. A connection whose flag was set by an earlier call that
  wanted a read (last conjunct) and whose next call would block on
  \<^verbatim>\<open>SSL_ERROR_WANT_WRITE\<close> returns \<open>-2\<close> with the flag still set.
\<close>

theorem tx_mem_stale_hint:
  "tx_mem scripted_mem (conn_mem ([(-1, SSL_ERROR_WANT_WRITE)], SSL_ERROR_WANT_READ) 0 1 empty_pair) [1] 1
     = (-2, conn_mem ([], SSL_ERROR_WANT_WRITE) 0 1 empty_pair)
   \<and> SSL_get_error scripted_mem (([], SSL_ERROR_WANT_WRITE), empty_pair) (-1) = SSL_ERROR_WANT_WRITE
   \<and> SSL_ERROR_WANT_WRITE \<noteq> SSL_ERROR_WANT_READ
   \<and> tx_need_rx (conn_mem ([], SSL_ERROR_WANT_WRITE) 0 1 empty_pair) \<noteq> 0
   \<and> tx_mem scripted_mem (conn_mem ([(-1, SSL_ERROR_WANT_READ), (-1, SSL_ERROR_WANT_WRITE)], 0) 0 0 empty_pair) [1] 1
     = (-2, conn_mem ([(-1, SSL_ERROR_WANT_WRITE)], SSL_ERROR_WANT_READ) 0 1 empty_pair)"
  by (simp add: tx_mem_def fixture_defs ssl_error_defs Let_def)

text \<open>
  C2, amended. Let \<open>rc\<close> be the cause the engine reports for the call. In demo 4,
  after \<open>tx\<close> the flag \<open>tx_need_rx\<close> is set if and only if the call returned
  \<open>-2\<close> with cause \<^verbatim>\<open>SSL_ERROR_WANT_READ\<close>, and after \<open>rx\<close> the flag
  \<open>rx_need_tx\<close> is set if and only if the call returned \<open>-2\<close> with cause
  \<^verbatim>\<open>SSL_ERROR_WANT_WRITE\<close>. In demo 5, after \<open>tx\<close> the flag is 0 on progress,
  1 when the call returned \<open>-2\<close> with cause \<^verbatim>\<open>SSL_ERROR_WANT_READ\<close>, and what it
  was before the call otherwise; symmetrically for \<open>rx\<close>.
\<close>

theorem directional_hint:
  "(SSL_write E (ssl ca) buf n = (la, sa) \<and> SSL_get_error E sa la = rca \<longrightarrow>
      (tx_need_rx (snd (tx E ca buf n)) \<noteq> 0)
        = (fst (tx E ca buf n) = -2 \<and> rca = SSL_ERROR_WANT_READ))
   \<and> (SSL_read E (ssl cb) n = (lb, rbuf, sb) \<and> SSL_get_error E sb lb = rcb \<longrightarrow>
      (rx_need_tx (snd (snd (rx E cb n))) \<noteq> 0)
        = (fst (rx E cb n) = -2 \<and> rcb = SSL_ERROR_WANT_WRITE))
   \<and> (BIO_write M (ssl mc, net_bio mc) buf n = (lc, sc, bc) \<and> SSL_get_error M (sc, bc) lc = rcc \<longrightarrow>
      tx_need_rx (snd (tx_mem M mc buf n)) =
        (if 0 < lc then 0
         else if fst (tx_mem M mc buf n) = -2 \<and> rcc = SSL_ERROR_WANT_READ then 1
         else tx_need_rx mc))
   \<and> (BIO_read M (ssl md, net_bio md) n = (ld, rbuf', sd, bd) \<and> SSL_get_error M (sd, bd) ld = rcd \<longrightarrow>
      rx_need_tx (snd (snd (rx_mem M md n))) =
        (if 0 < ld then 0
         else if fst (rx_mem M md n) = -2 \<and> rcd = SSL_ERROR_WANT_WRITE then 1
         else rx_need_tx md))"
  using tx_hint [of E ca buf n la sa rca] rx_hint [of E cb n lb rbuf sb rcb]
        tx_mem_hint [of M mc buf n lc sc bc rcc] rx_mem_hint [of M md n ld rbuf' sd bd rcd]
  by blast

theorem directional_hint_witness:
  "SSL_write scripted (ssl (conn_fd ([(-1, SSL_ERROR_WANT_READ)], 0))) [1] 1
      = (-1, ([], SSL_ERROR_WANT_READ))
   \<and> fst (tx scripted (conn_fd ([(-1, SSL_ERROR_WANT_READ)], 0)) [1] 1) = -2
   \<and> tx_need_rx (snd (tx scripted (conn_fd ([(-1, SSL_ERROR_WANT_READ)], 0)) [1] 1)) \<noteq> 0
   \<and> SSL_read scripted (ssl (conn_fd ([(-1, SSL_ERROR_WANT_WRITE)], 0))) 1
      = (-1, [], ([], SSL_ERROR_WANT_WRITE))
   \<and> fst (rx scripted (conn_fd ([(-1, SSL_ERROR_WANT_WRITE)], 0)) 1) = -2
   \<and> rx_need_tx (snd (snd (rx scripted (conn_fd ([(-1, SSL_ERROR_WANT_WRITE)], 0)) 1))) \<noteq> 0
   \<and> BIO_write scripted_mem
        (ssl (conn_mem ([(-1, SSL_ERROR_WANT_WRITE)], 0) 0 1 empty_pair),
         net_bio (conn_mem ([(-1, SSL_ERROR_WANT_WRITE)], 0) 0 1 empty_pair)) [1] 1
      = (-1, ([], SSL_ERROR_WANT_WRITE), empty_pair)
   \<and> tx_need_rx (snd (tx_mem scripted_mem
        (conn_mem ([(-1, SSL_ERROR_WANT_WRITE)], 0) 0 1 empty_pair) [1] 1)) = 1
   \<and> BIO_read scripted_mem
        (ssl (conn_mem ([(-1, SSL_ERROR_SSL)], 0) 1 0 empty_pair),
         net_bio (conn_mem ([(-1, SSL_ERROR_SSL)], 0) 1 0 empty_pair)) 1
      = (-1, [], ([], SSL_ERROR_SSL), empty_pair)
   \<and> rx_need_tx (snd (snd (rx_mem scripted_mem
        (conn_mem ([(-1, SSL_ERROR_SSL)], 0) 1 0 empty_pair) 1))) = 1"
proof -
  let ?ca = "conn_fd ([(-1, SSL_ERROR_WANT_READ)], 0)"
  let ?cb = "conn_fd ([(-1, SSL_ERROR_WANT_WRITE)], 0)"
  let ?mc = "conn_mem ([(-1, SSL_ERROR_WANT_WRITE)], 0) 0 1 empty_pair"
  let ?md = "conn_mem ([(-1, SSL_ERROR_SSL)], 0) 1 0 empty_pair"
  have a: "SSL_write scripted (ssl ?ca) [1] 1 = (-1, ([], SSL_ERROR_WANT_READ))"
    and a': "SSL_get_error scripted ([], SSL_ERROR_WANT_READ) (-1) = SSL_ERROR_WANT_READ"
    and b: "SSL_read scripted (ssl ?cb) 1 = (-1, [], ([], SSL_ERROR_WANT_WRITE))"
    and b': "SSL_get_error scripted ([], SSL_ERROR_WANT_WRITE) (-1) = SSL_ERROR_WANT_WRITE"
    by (simp_all add: scripted_def script_step_def conn_fd_def)
  have c: "BIO_write scripted_mem (ssl ?mc, net_bio ?mc) [1] 1
             = (-1, ([], SSL_ERROR_WANT_WRITE), empty_pair)"
    and c': "SSL_get_error scripted_mem (([], SSL_ERROR_WANT_WRITE), empty_pair) (-1)
             = SSL_ERROR_WANT_WRITE"
    and d: "BIO_read scripted_mem (ssl ?md, net_bio ?md) 1 = (-1, [], ([], SSL_ERROR_SSL), empty_pair)"
    and d': "SSL_get_error scripted_mem (([], SSL_ERROR_SSL), empty_pair) (-1) = SSL_ERROR_SSL"
    by (simp_all add: scripted_mem_def script_step_def conn_mem_def)
  have ra: "fst (tx scripted ?ca [1] 1) = -2"
    by (subst tx_outcome [OF a a']) (simp add: ssl_error_defs)
  have rb: "fst (rx scripted ?cb 1) = -2"
    by (subst rx_outcome [OF b b']) (simp add: ssl_error_defs)
  have rc: "fst (tx_mem scripted_mem ?mc [1] 1) = -2"
    by (subst tx_mem_outcome [OF c c']) (simp add: ssl_error_defs)
  have rd: "fst (rx_mem scripted_mem ?md 1) = -1"
    by (subst rx_mem_outcome [OF d d']) (simp add: ssl_error_defs)
  have fc: "tx_need_rx ?mc = 1" and fd: "rx_need_tx ?md = 1"
    by (simp_all add: conn_mem_def)
  have ne: "SSL_ERROR_WANT_WRITE \<noteq> SSL_ERROR_WANT_READ" "SSL_ERROR_SSL \<noteq> SSL_ERROR_WANT_WRITE"
    by (simp_all add: ssl_error_defs)
  note ha = directional_hint [THEN conjunct1, rule_format, OF conjI [OF a a']]
  note hb = directional_hint [THEN conjunct2, THEN conjunct1, rule_format, OF conjI [OF b b']]
  note hc = directional_hint [THEN conjunct2, THEN conjunct2, THEN conjunct1, rule_format,
                              OF conjI [OF c c']]
  note hd = directional_hint [THEN conjunct2, THEN conjunct2, THEN conjunct2, rule_format,
                              OF conjI [OF d d']]
  have "tx_need_rx (snd (tx scripted ?ca [1] 1)) \<noteq> 0"
    unfolding ha using ra by simp
  moreover have "rx_need_tx (snd (snd (rx scripted ?cb 1))) \<noteq> 0"
    unfolding hb using rb by simp
  moreover have "tx_need_rx (snd (tx_mem scripted_mem ?mc [1] 1)) = 1"
    unfolding hc using rc fc ne by simp
  moreover have "rx_need_tx (snd (snd (rx_mem scripted_mem ?md 1))) = 1"
    unfolding hd using rd fd ne by simp
  ultimately show ?thesis using a b c d ra rb by simp
qed

text \<open>
  C3. In both demos \<open>get_conn_pending_tx\<close> returns exactly the events Writable and
  Error, with Readable if and only if \<open>tx_need_rx\<close> is set, and
  \<open>get_conn_pending_rx\<close> returns exactly Readable and Error, with Writable if and
  only if \<open>rx_need_tx\<close> is set (as event sets and as masks). Each result is a function
  of its flag alone, and a query writes nothing, so two calls with no \<open>tx\<close> or
  \<open>rx\<close> between them return the same mask, also when the pump of demo 5 ran in
  between.
\<close>

theorem readiness_query:
  "event_set (get_conn_pending_tx conn) =
     {Writable, Error} \<union> (if tx_need_rx conn \<noteq> 0 then {Readable} else {})
   \<and> event_set (get_conn_pending_rx conn) =
     {Readable, Error} \<union> (if rx_need_tx conn \<noteq> 0 then {Writable} else {})
   \<and> get_conn_pending_tx conn =
       (if tx_need_rx conn \<noteq> 0 then POLLIN OR POLLOUT OR POLLERR else POLLOUT OR POLLERR)
   \<and> get_conn_pending_rx conn =
       (if rx_need_tx conn \<noteq> 0 then POLLIN OR POLLOUT OR POLLERR else POLLIN OR POLLERR)
   \<and> get_conn_pending_tx (fst (snd (pump T m w events timeout))) = get_conn_pending_tx m
   \<and> get_conn_pending_rx (fst (snd (pump T m w events timeout))) = get_conn_pending_rx m"
proof -
  have "get_conn_pending_tx (fst (snd (pump T m w events timeout))) = get_conn_pending_tx m"
    and "get_conn_pending_rx (fst (snd (pump T m w events timeout))) = get_conn_pending_rx m"
    using pump_frame [of T m w events timeout]
    by (simp_all add: get_conn_pending_tx_def get_conn_pending_rx_def)
  then show ?thesis
    using event_set_pending_tx [of conn] event_set_pending_rx [of conn]
          pending_tx_val [of conn] pending_rx_val [of conn]
    by blast
qed

text \<open>
  C4 (as stated, it fails). When the engine reports \<^verbatim>\<open>SSL_ERROR_WANT_CONNECT\<close> for a
  read, \<open>rx\<close> returns \<open>-1\<close> in both demos: its \<^verbatim>\<open>switch\<close> has no case for it.
\<close>

theorem rx_want_connect_fatal:
  "SSL_read scripted (ssl (conn_fd ([(-1, SSL_ERROR_WANT_CONNECT)], 0))) 16
     = (-1, [], ([], SSL_ERROR_WANT_CONNECT))
   \<and> SSL_get_error scripted ([], SSL_ERROR_WANT_CONNECT) (-1) = SSL_ERROR_WANT_CONNECT
   \<and> fst (rx scripted (conn_fd ([(-1, SSL_ERROR_WANT_CONNECT)], 0)) 16) = -1
   \<and> fst (rx_mem scripted_mem (conn_mem ([(-1, SSL_ERROR_WANT_CONNECT)], 0) 0 0 empty_pair) 16) = -1"
  by (simp add: rx_def rx_mem_def fixture_defs ssl_error_defs Let_def)

text \<open>
  C4, amended. For a read that returned \<open>l \<le> 0\<close>, in both demos \<open>rx\<close> returns
  \<open>-2\<close> if and only if the cause is \<^verbatim>\<open>SSL_ERROR_WANT_READ\<close> or
  \<^verbatim>\<open>SSL_ERROR_WANT_WRITE\<close>, and \<open>-1\<close> for every other cause;
  \<^verbatim>\<open>SSL_ERROR_WANT_CONNECT\<close> is among the others.
\<close>

theorem rx_would_block_causes:
  "(SSL_read E (ssl c) n = (l, buf, s) \<and> l \<le> 0 \<and> SSL_get_error E s l = rc \<longrightarrow>
      (fst (rx E c n) = -2) = (rc \<in> {SSL_ERROR_WANT_READ, SSL_ERROR_WANT_WRITE})
      \<and> (fst (rx E c n) = -1) = (rc \<notin> {SSL_ERROR_WANT_READ, SSL_ERROR_WANT_WRITE})
      \<and> (rc = SSL_ERROR_WANT_CONNECT \<longrightarrow> fst (rx E c n) = -1))
   \<and> (BIO_read M (ssl m, net_bio m) n' = (l', buf', s', b') \<and> l' \<le> 0
        \<and> SSL_get_error M (s', b') l' = rc' \<longrightarrow>
      (fst (rx_mem M m n') = -2) = (rc' \<in> {SSL_ERROR_WANT_READ, SSL_ERROR_WANT_WRITE})
      \<and> (fst (rx_mem M m n') = -1) = (rc' \<notin> {SSL_ERROR_WANT_READ, SSL_ERROR_WANT_WRITE})
      \<and> (rc' = SSL_ERROR_WANT_CONNECT \<longrightarrow> fst (rx_mem M m n') = -1))"
proof -
  have "fst (rx E c n) = -2 \<longleftrightarrow> rc \<in> {SSL_ERROR_WANT_READ, SSL_ERROR_WANT_WRITE}"
       "fst (rx E c n) = -1 \<longleftrightarrow> rc \<notin> {SSL_ERROR_WANT_READ, SSL_ERROR_WANT_WRITE}"
       "rc = SSL_ERROR_WANT_CONNECT \<longrightarrow> fst (rx E c n) = -1"
    if "SSL_read E (ssl c) n = (l, buf, s)" "l \<le> 0" "SSL_get_error E s l = rc"
    using that by (auto simp: rx_value [OF that(1,3)] ssl_error_defs)
  moreover
  have "fst (rx_mem M m n') = -2 \<longleftrightarrow> rc' \<in> {SSL_ERROR_WANT_READ, SSL_ERROR_WANT_WRITE}"
       "fst (rx_mem M m n') = -1 \<longleftrightarrow> rc' \<notin> {SSL_ERROR_WANT_READ, SSL_ERROR_WANT_WRITE}"
       "rc' = SSL_ERROR_WANT_CONNECT \<longrightarrow> fst (rx_mem M m n') = -1"
    if "BIO_read M (ssl m, net_bio m) n' = (l', buf', s', b')" "l' \<le> 0"
       "SSL_get_error M (s', b') l' = rc'"
    using that by (auto simp: rx_mem_value [OF that(1,3)] ssl_error_defs)
  ultimately show ?thesis by blast
qed

theorem rx_would_block_causes_witness:
  "SSL_read scripted (ssl (conn_fd ([(-1, SSL_ERROR_WANT_WRITE)], 0))) 16
     = (-1, [], ([], SSL_ERROR_WANT_WRITE))
   \<and> fst (rx scripted (conn_fd ([(-1, SSL_ERROR_WANT_WRITE)], 0)) 16) = -2
   \<and> BIO_read scripted_mem
        (ssl (conn_mem ([(0, SSL_ERROR_WANT_READ)], 0) 0 0 empty_pair),
         net_bio (conn_mem ([(0, SSL_ERROR_WANT_READ)], 0) 0 0 empty_pair)) 16
     = (0, [], ([], SSL_ERROR_WANT_READ), empty_pair)
   \<and> fst (rx_mem scripted_mem (conn_mem ([(0, SSL_ERROR_WANT_READ)], 0) 0 0 empty_pair) 16) = -2"
proof -
  let ?c = "conn_fd ([(-1, SSL_ERROR_WANT_WRITE)], 0)"
  let ?m = "conn_mem ([(0, SSL_ERROR_WANT_READ)], 0) 0 0 empty_pair"
  have a: "SSL_read scripted (ssl ?c) 16 = (-1, [], ([], SSL_ERROR_WANT_WRITE))"
    and a': "SSL_get_error scripted ([], SSL_ERROR_WANT_WRITE) (-1) = SSL_ERROR_WANT_WRITE"
    by (simp_all add: scripted_def script_step_def conn_fd_def)
  have b: "BIO_read scripted_mem (ssl ?m, net_bio ?m) 16 = (0, [], ([], SSL_ERROR_WANT_READ), empty_pair)"
    and b': "SSL_get_error scripted_mem (([], SSL_ERROR_WANT_READ), empty_pair) 0 = SSL_ERROR_WANT_READ"
    by (simp_all add: scripted_mem_def script_step_def conn_mem_def)
  have le: "(-1::int) \<le> 0" "(0::int) \<le> 0" by simp_all
  note ha = rx_would_block_causes [THEN conjunct1, rule_format, OF conjI [OF a conjI [OF le(1) a']]]
  note hb = rx_would_block_causes [THEN conjunct2, rule_format, OF conjI [OF b conjI [OF le(2) b']]]
  have "fst (rx scripted ?c 16) = -2" using ha by simp
  moreover have "fst (rx_mem scripted_mem ?m 16) = -2" using hb by simp
  ultimately show ?thesis using a b by simp
qed

text \<open>
  C5 (as stated, it fails). An orderly close by the peer reaches \<open>rx\<close> as a read
  result \<open>0\<close> with cause \<^verbatim>\<open>SSL_ERROR_ZERO_RETURN\<close>; a protocol error as \<open>-1\<close>
  with cause \<^verbatim>\<open>SSL_ERROR_SSL\<close>. \<open>rx\<close> returns the same value for both.
\<close>

theorem rx_peer_closed_like_fatal:
  "SSL_read scripted (ssl (conn_fd ([(0, SSL_ERROR_ZERO_RETURN)], 0))) 16
     = (0, [], ([], SSL_ERROR_ZERO_RETURN))
   \<and> SSL_get_error scripted ([], SSL_ERROR_ZERO_RETURN) 0 = SSL_ERROR_ZERO_RETURN
   \<and> SSL_read scripted (ssl (conn_fd ([(-1, SSL_ERROR_SSL)], 0))) 16 = (-1, [], ([], SSL_ERROR_SSL))
   \<and> SSL_get_error scripted ([], SSL_ERROR_SSL) (-1) = SSL_ERROR_SSL
   \<and> fst (rx scripted (conn_fd ([(0, SSL_ERROR_ZERO_RETURN)], 0)) 16)
       = fst (rx scripted (conn_fd ([(-1, SSL_ERROR_SSL)], 0)) 16)"
  by (simp add: rx_def fixture_defs ssl_error_defs Let_def)

text \<open>
  C5, amended. In both demos \<open>rx\<close> returns \<open>-1\<close> when the engine reports an
  orderly close by the peer (\<^verbatim>\<open>SSL_ERROR_ZERO_RETURN\<close>), the value it also returns
  for a fatal protocol or transport error (\<^verbatim>\<open>SSL_ERROR_SSL\<close>,
  \<^verbatim>\<open>SSL_ERROR_SYSCALL\<close>): the return value does not tell the two apart.
\<close>

theorem rx_peer_closed:
  "(SSL_read E (ssl c) n = (l, buf, s) \<and> l \<le> 0 \<and> SSL_get_error E s l = SSL_ERROR_ZERO_RETURN
    \<and> SSL_read E' (ssl c') n' = (l', buf', s') \<and> l' \<le> 0 \<and> SSL_get_error E' s' l' = rc'
    \<and> rc' \<in> {SSL_ERROR_SSL, SSL_ERROR_SYSCALL} \<longrightarrow>
      fst (rx E c n) = -1 \<and> fst (rx E' c' n') = -1 \<and> fst (rx E c n) = fst (rx E' c' n'))
   \<and> (BIO_read M (ssl m, net_bio m) k = (j, mbuf, t, b) \<and> j \<le> 0
    \<and> SSL_get_error M (t, b) j = SSL_ERROR_ZERO_RETURN
    \<and> BIO_read M' (ssl m', net_bio m') k' = (j', mbuf', t', b') \<and> j' \<le> 0
    \<and> SSL_get_error M' (t', b') j' = rd'
    \<and> rd' \<in> {SSL_ERROR_SSL, SSL_ERROR_SYSCALL} \<longrightarrow>
      fst (rx_mem M m k) = -1 \<and> fst (rx_mem M' m' k') = -1
      \<and> fst (rx_mem M m k) = fst (rx_mem M' m' k'))"
proof -
  have "fst (rx E c n) = -1"
    if "SSL_read E (ssl c) n = (l, buf, s)" "l \<le> 0" "SSL_get_error E s l = SSL_ERROR_ZERO_RETURN"
    using that by (simp add: rx_value [OF that(1,3)] ssl_error_defs)
  moreover have "fst (rx E' c' n') = -1"
    if "SSL_read E' (ssl c') n' = (l', buf', s')" "l' \<le> 0" "SSL_get_error E' s' l' = rc'"
       "rc' \<in> {SSL_ERROR_SSL, SSL_ERROR_SYSCALL}"
    using that by (auto simp: rx_value [OF that(1,3)] ssl_error_defs)
  moreover have "fst (rx_mem M m k) = -1"
    if "BIO_read M (ssl m, net_bio m) k = (j, mbuf, t, b)" "j \<le> 0"
       "SSL_get_error M (t, b) j = SSL_ERROR_ZERO_RETURN"
    using that by (simp add: rx_mem_value [OF that(1,3)] ssl_error_defs)
  moreover have "fst (rx_mem M' m' k') = -1"
    if "BIO_read M' (ssl m', net_bio m') k' = (j', mbuf', t', b')" "j' \<le> 0"
       "SSL_get_error M' (t', b') j' = rd'" "rd' \<in> {SSL_ERROR_SSL, SSL_ERROR_SYSCALL}"
    using that by (auto simp: rx_mem_value [OF that(1,3)] ssl_error_defs)
  ultimately show ?thesis by simp
qed

theorem rx_peer_closed_witness:
  "SSL_read scripted (ssl (conn_fd ([(0, SSL_ERROR_ZERO_RETURN)], 0))) 16
     = (0, [], ([], SSL_ERROR_ZERO_RETURN))
   \<and> SSL_read scripted (ssl (conn_fd ([(-1, SSL_ERROR_SYSCALL)], 0))) 16
     = (-1, [], ([], SSL_ERROR_SYSCALL))
   \<and> fst (rx scripted (conn_fd ([(0, SSL_ERROR_ZERO_RETURN)], 0)) 16) = -1
   \<and> fst (rx scripted (conn_fd ([(-1, SSL_ERROR_SYSCALL)], 0)) 16) = -1
   \<and> fst (rx_mem scripted_mem (conn_mem ([(0, SSL_ERROR_ZERO_RETURN)], 0) 0 0 empty_pair) 16) = -1
   \<and> fst (rx_mem scripted_mem (conn_mem ([(-1, SSL_ERROR_SSL)], 0) 0 0 empty_pair) 16) = -1"
proof -
  let ?c = "conn_fd ([(0, SSL_ERROR_ZERO_RETURN)], 0)"
  let ?c' = "conn_fd ([(-1, SSL_ERROR_SYSCALL)], 0)"
  let ?m = "conn_mem ([(0, SSL_ERROR_ZERO_RETURN)], 0) 0 0 empty_pair"
  let ?m' = "conn_mem ([(-1, SSL_ERROR_SSL)], 0) 0 0 empty_pair"
  have a: "SSL_read scripted (ssl ?c) 16 = (0, [], ([], SSL_ERROR_ZERO_RETURN))"
    and a': "SSL_get_error scripted ([], SSL_ERROR_ZERO_RETURN) 0 = SSL_ERROR_ZERO_RETURN"
    and b: "SSL_read scripted (ssl ?c') 16 = (-1, [], ([], SSL_ERROR_SYSCALL))"
    and b': "SSL_get_error scripted ([], SSL_ERROR_SYSCALL) (-1) = SSL_ERROR_SYSCALL"
    by (simp_all add: scripted_def script_step_def conn_fd_def)
  have c: "BIO_read scripted_mem (ssl ?m, net_bio ?m) 16
             = (0, [], ([], SSL_ERROR_ZERO_RETURN), empty_pair)"
    and c': "SSL_get_error scripted_mem (([], SSL_ERROR_ZERO_RETURN), empty_pair) 0
             = SSL_ERROR_ZERO_RETURN"
    and d: "BIO_read scripted_mem (ssl ?m', net_bio ?m') 16 = (-1, [], ([], SSL_ERROR_SSL), empty_pair)"
    and d': "SSL_get_error scripted_mem (([], SSL_ERROR_SSL), empty_pair) (-1) = SSL_ERROR_SSL"
    by (simp_all add: scripted_mem_def script_step_def conn_mem_def)
  have le: "(0::int) \<le> 0" "(-1::int) \<le> 0" by simp_all
  have fatal: "SSL_ERROR_SYSCALL \<in> {SSL_ERROR_SSL, SSL_ERROR_SYSCALL}"
              "SSL_ERROR_SSL \<in> {SSL_ERROR_SSL, SSL_ERROR_SYSCALL}" by simp_all
  have "fst (rx scripted ?c 16) = -1 \<and> fst (rx scripted ?c' 16) = -1
        \<and> fst (rx scripted ?c 16) = fst (rx scripted ?c' 16)"
    by (rule rx_peer_closed [THEN conjunct1, rule_format,
          OF conjI [OF a conjI [OF le(1) conjI [OF a' conjI [OF b conjI [OF le(2)
               conjI [OF b' fatal(1)]]]]]]])
  moreover
  have "fst (rx_mem scripted_mem ?m 16) = -1 \<and> fst (rx_mem scripted_mem ?m' 16) = -1
        \<and> fst (rx_mem scripted_mem ?m 16) = fst (rx_mem scripted_mem ?m' 16)"
    by (rule rx_peer_closed [THEN conjunct2, rule_format,
          OF conjI [OF c conjI [OF le(1) conjI [OF c' conjI [OF d conjI [OF le(2)
               conjI [OF d' fatal(2)]]]]]]])
  ultimately show ?thesis using a b by simp
qed

text \<open>
  C6. When nothing waits in \<^verbatim>\<open>net_bio\<close> for the network (\<open>net_tx_avail\<close> is 0)
  and \<^verbatim>\<open>net_bio\<close> has no room for input (\<open>net_rx_space\<close> is 0), the pump returns
  1 for every event mask and timeout, with the connection and the world as they were:
  no \<^verbatim>\<open>poll\<close>, \<^verbatim>\<open>read\<close> or \<^verbatim>\<open>write\<close> is made and the buffers are unchanged.
\<close>

theorem pump_noop:
  assumes "net_tx_avail conn = 0" and "net_rx_space conn = 0"
  shows "pump T conn w events timeout = (1, conn, w)"
  using assms by (rule pump_idle)

theorem pump_noop_witness:
  "net_tx_avail (conn_mem () 0 1 \<lparr>out_buf = [], in_buf = [7, 7], in_size = 2\<rparr>) = 0
   \<and> net_rx_space (conn_mem () 0 1 \<lparr>out_buf = [], in_buf = [7, 7], in_size = 2\<rparr>) = 0
   \<and> pump slow_socket (conn_mem () 0 1 \<lparr>out_buf = [], in_buf = [7, 7], in_size = 2\<rparr>)
        quiet_world 13 2000
      = (1, conn_mem () 0 1 \<lparr>out_buf = [], in_buf = [7, 7], in_size = 2\<rparr>, quiet_world)"
proof -
  let ?c = "conn_mem () 0 1 \<lparr>out_buf = [], in_buf = [7, 7], in_size = 2\<rparr>"
  have a: "net_tx_avail ?c = 0" and b: "net_rx_space ?c = 0"
    by (simp_all add: conn_mem_def net_tx_avail_def net_rx_space_def BIO_ctrl_pending_def
                      BIO_ctrl_get_write_guarantee_def)
  show ?thesis using a b pump_noop [OF a b, of slow_socket quiet_world 13 2000] by simp
qed

text \<open>
  C7 (as stated, it fails). The socket takes one byte of the three that wait in
  \<^verbatim>\<open>net_bio\<close>: the pump prints \<^verbatim>\<open>"short read 1 3"\<close> and returns 1.
\<close>

theorem pump_short_write_success:
  "sys_write slow_socket () [1, 2, 3] = (1, ())
   \<and> pump slow_socket (conn_mem () 0 0 \<lparr>out_buf = [1, 2, 3], in_buf = [], in_size = 4\<rparr>)
        quiet_world 12 2000
      = (1, conn_mem () 0 0 \<lparr>out_buf = [], in_buf = [], in_size = 4\<rparr>,
         \<lparr>transport_state = (), syscalls = [Sys_poll 12 2000, Sys_write [1, 2, 3]],
          stderr = [Short_read 1 3]\<rparr>)"
  by (simp add: pump_def pump_events_def drain_loop.simps read_net_tx_def BIO_read_net_def
                net_rx_space_def net_tx_avail_def BIO_ctrl_pending_def
                BIO_ctrl_get_write_guarantee_def do_poll_def do_write_def fprintf_stderr_def
                fixture_defs poll_defs Let_def)

text \<open>
  C7, amended. When \<^verbatim>\<open>poll\<close> reported an event, the read phase did not fail and
  the socket is writable, the drain loop runs until \<^verbatim>\<open>net_bio\<close> holds nothing more
  to send, whatever \<^verbatim>\<open>write\<close> returns on the way: every chunk of at most 2048
  bytes of what waited is handed to \<^verbatim>\<open>write\<close> once, in order; for every chunk of
  which \<^verbatim>\<open>write\<close> takes fewer bytes (\<open>l2\<close>) than it holds (\<open>l\<close>), in whichever
  turn of the loop, the pump prints the line \<^verbatim>\<open>"short read l2 l"\<close> to \<^verbatim>\<open>stderr\<close>,
  and it prints nothing else; the bytes a short write did not take are not sent
  again. The pump returns 1, and the value it returns does not depend on what
  \<^verbatim>\<open>write\<close> returns at all.
\<close>

theorem pump_short_write_logged:
  assumes "pump_events conn events AND (POLLIN OR POLLOUT) \<noteq> 0"
      and "do_poll T w (pump_events conn events) timeout = ((n, revents), w1)"
      and "n \<noteq> 0"
      and "(if revents AND POLLIN \<noteq> 0 then read_loop T conn w1 else (True, conn, w1))
             = (True, conn1, w2)"
      and "revents AND POLLOUT \<noteq> 0"
  shows "(let cs = chunks 2048 (out_buf (net_bio conn1));
              rs = write_results T (transport_state w2) cs;
              res = pump T conn w events timeout
          in fst res = 1
             \<and> fst (snd res) = conn1\<lparr>net_bio := (net_bio conn1)\<lparr>out_buf := []\<rparr>\<rparr>
             \<and> concat cs = out_buf (net_bio conn1)
             \<and> syscalls (snd (snd res)) = syscalls w2 @ map Sys_write cs
             \<and> stderr (snd (snd res)) = stderr w2 @ short_writes (zip cs rs)
             \<and> (\<forall>i < length cs. rs ! i < int (length (cs ! i)) \<longrightarrow>
                   Short_read (rs ! i) (int (length (cs ! i))) \<in> set (stderr (snd (snd res))))
             \<and> fst (pump (T\<lparr>sys_write := f\<rparr>) conn w events timeout) = fst res)"
proof -
  let ?cs = "chunks 2048 (out_buf (net_bio conn1))"
  let ?rs = "write_results T (transport_state w2) ?cs"
  note p = pump_drains [OF assms]
  note d = drain_loop_all [of T conn1 w2]
  have listed: "Short_read (?rs ! i) (int (length (?cs ! i)))
                  \<in> set (stderr (snd (drain_loop T conn1 w2)))"
    if "i < length ?cs" "?rs ! i < int (length (?cs ! i))" for i
    using short_write_listed [OF that(1) _ that(2)] d by simp
  show ?thesis
    unfolding Let_def p
    using d listed by (simp add: concat_chunks pump_value_sys_write p)
qed

theorem pump_short_write_logged_witness:
  "fst (pump slow_socket (conn_mem () 0 0 \<lparr>out_buf = replicate 3000 0, in_buf = [], in_size = 4\<rparr>)
          quiet_world 12 2000) = 1
   \<and> fst (snd (pump slow_socket
          (conn_mem () 0 0 \<lparr>out_buf = replicate 3000 0, in_buf = [], in_size = 4\<rparr>)
          quiet_world 12 2000))
       = conn_mem () 0 0 \<lparr>out_buf = [], in_buf = [], in_size = 4\<rparr>
   \<and> syscalls (snd (snd (pump slow_socket
          (conn_mem () 0 0 \<lparr>out_buf = replicate 3000 0, in_buf = [], in_size = 4\<rparr>)
          quiet_world 12 2000)))
       = [Sys_poll 12 2000, Sys_write (replicate 2048 0), Sys_write (replicate 952 0)]
   \<and> stderr (snd (snd (pump slow_socket
          (conn_mem () 0 0 \<lparr>out_buf = replicate 3000 0, in_buf = [], in_size = 4\<rparr>)
          quiet_world 12 2000)))
       = [Short_read 1 2048, Short_read 1 952]"
proof -
  let ?c = "conn_mem () 0 0 \<lparr>out_buf = replicate 3000 0, in_buf = [], in_size = 4\<rparr>"
  let ?w1 = "\<lparr>transport_state = (), syscalls = [Sys_poll 12 2000], stderr = []\<rparr>"
  have pe: "pump_events ?c 12 = 12"
    by (simp add: pump_events_def conn_mem_def net_rx_space_def net_tx_avail_def
                  BIO_ctrl_pending_def BIO_ctrl_get_write_guarantee_def poll_defs)
  have a1: "pump_events ?c 12 AND (POLLIN OR POLLOUT) \<noteq> 0"
    by (simp add: pe poll_defs)
  have a2: "do_poll slow_socket quiet_world (pump_events ?c 12) 2000 = ((1, POLLOUT), ?w1)"
    by (simp add: pe do_poll_def slow_socket_def quiet_world_def)
  have a3: "(1::int) \<noteq> 0" by simp
  have a4: "(if POLLOUT AND POLLIN \<noteq> 0 then read_loop slow_socket ?c ?w1 else (True, ?c, ?w1))
              = (True, ?c, ?w1)"
    by (simp add: poll_defs)
  have a5: "POLLOUT AND POLLOUT \<noteq> 0" by (simp add: poll_defs)
  have out: "out_buf (net_bio ?c) = replicate 3000 0"
    by (simp add: conn_mem_def)
  have cs: "chunks 2048 (replicate 3000 (0::byte)) = [replicate 2048 0, replicate 952 0]"
    by (simp add: chunks_Cons)
  have sw: "sys_write slow_socket () b = (1, ())" for b
    by (simp add: slow_socket_def)
  have c': "?c\<lparr>net_bio := (net_bio ?c)\<lparr>out_buf := []\<rparr>\<rparr>
              = conn_mem () 0 0 \<lparr>out_buf = [], in_buf = [], in_size = 4\<rparr>"
    by (simp add: conn_mem_def)
  show ?thesis
    using pump_short_write_logged [where f = "sys_write slow_socket", OF a1 a2 a3 a4 a5]
    by (simp add: Let_def out cs sw c' short_writes_def)
qed




text \<open>
  C9 (the code of demo 5 does not do what the claim says). When \<^verbatim>\<open>BIO_set_ssl\<close>
  fails, \<open>new_conn\<close> of demo 5 returns \<^verbatim>\<open>NULL\<close> with the connection record and
  \<^verbatim>\<open>net_bio\<close> still allocated; when \<^verbatim>\<open>SSL_set_tlsext_host_name\<close> fails, with
  \<^verbatim>\<open>net_bio\<close> still allocated. \<open>new_conn\<close> of demo 4 leaves nothing allocated.
\<close>

theorem new_conn_mem_leaks:
  "fst (new_conn_mem (all_ok\<lparr>BIO_set_ssl_ret := 0\<rparr>) empty_heap) = None
   \<and> live (snd (new_conn_mem (all_ok\<lparr>BIO_set_ssl_ret := 0\<rparr>) empty_heap)) = {R_conn, R_net_bio}
   \<and> fst (new_conn_mem (all_ok\<lparr>SSL_set_tlsext_host_name_ret := 0\<rparr>) empty_heap) = None
   \<and> live (snd (new_conn_mem (all_ok\<lparr>SSL_set_tlsext_host_name_ret := 0\<rparr>) empty_heap))
       = {R_net_bio}
   \<and> fst (new_conn (all_ok\<lparr>SSL_set_tlsext_host_name_ret := 0\<rparr>) empty_heap 3) = None
   \<and> live (snd (new_conn (all_ok\<lparr>SSL_set_tlsext_host_name_ret := 0\<rparr>) empty_heap 3)) = {}"
  by (auto simp: new_conn_mem_def new_conn_def all_ok_def empty_heap_def heap_defs Let_def)

text \<open>
  C10. The mask the pump hands to \<^verbatim>\<open>poll\<close> holds Writable if and only if bytes
  wait in \<^verbatim>\<open>net_bio\<close> for the network, whatever the caller asked for; Readable if
  and only if the caller asked for it and \<^verbatim>\<open>net_bio\<close> has room; Error if and only
  if the caller asked for it; and no other bit. When the mask has neither Readable nor
  Writable the pump makes no system call; otherwise its first system call is
  \<^verbatim>\<open>poll\<close> with exactly this mask.
\<close>

theorem pump_wait_set:
  "event_set (pump_events conn events) =
     ((event_set events \<inter> {Readable, Error}) - (if net_rx_space conn = 0 then {Readable} else {}))
       \<union> (if 0 < net_tx_avail conn then {Writable} else {})
   \<and> (Writable \<in> event_set (pump_events conn events)) = (0 < net_tx_avail conn)
   \<and> (Readable \<in> event_set (pump_events conn events))
       = (Readable \<in> event_set events \<and> 0 < net_rx_space conn)
   \<and> (Error \<in> event_set (pump_events conn events)) = (Error \<in> event_set events)
   \<and> pump_events conn events AND NOT (POLLIN OR POLLOUT OR POLLERR) = 0
   \<and> (if pump_events conn events AND (POLLIN OR POLLOUT) = 0
       then syscalls (snd (snd (pump T conn w events timeout))) = syscalls w
       else prefix (syscalls w @ [Sys_poll (pump_events conn events) timeout])
              (syscalls (snd (snd (pump T conn w events timeout)))))"
proof -
  have "pump_events conn events AND NOT (POLLIN OR POLLOUT OR POLLERR) = 0"
    by (rule bit_eqI) (auto simp: bit_pump_events bit_poll)
  moreover
  have "syscalls (snd (snd (pump T conn w events timeout))) = syscalls w"
    if "pump_events conn events AND (POLLIN OR POLLOUT) = 0"
    using that by (simp add: pump_def)
  moreover note pump_polls [of conn events w timeout T] event_set_pump_events [of conn events]
  ultimately show ?thesis
    by (auto simp: event_set_bits bit_pump_events)
qed

theorem pump_wait_set_witness:
  "event_set (pump_events (conn_mem () 0 0 \<lparr>out_buf = [1, 2, 3], in_buf = [], in_size = 4\<rparr>) POLLIN)
     = {Readable, Writable}
   \<and> event_set (pump_events (conn_mem () 0 0 \<lparr>out_buf = [], in_buf = [], in_size = 4\<rparr>) POLLOUT)
     = {}
   \<and> event_set (pump_events (conn_mem () 0 0 \<lparr>out_buf = [], in_buf = [7, 7], in_size = 2\<rparr>)
                   (POLLIN OR POLLERR))
     = {Error}"
proof -
  have e: "event_set POLLIN = {Readable}" "event_set POLLOUT = {Writable}"
          "event_set (POLLIN OR POLLERR) = {Readable, Error}"
    by (auto simp: event_set_bits bit_poll)
  have v: "net_tx_avail (conn_mem () 0 0 \<lparr>out_buf = [1, 2, 3], in_buf = [], in_size = 4\<rparr>) = 3"
          "net_rx_space (conn_mem () 0 0 \<lparr>out_buf = [1, 2, 3], in_buf = [], in_size = 4\<rparr>) = 4"
          "net_tx_avail (conn_mem () 0 0 \<lparr>out_buf = [], in_buf = [], in_size = 4\<rparr>) = 0"
          "net_rx_space (conn_mem () 0 0 \<lparr>out_buf = [], in_buf = [], in_size = 4\<rparr>) = 4"
          "net_tx_avail (conn_mem () 0 0 \<lparr>out_buf = [], in_buf = [7, 7], in_size = 2\<rparr>) = 0"
          "net_rx_space (conn_mem () 0 0 \<lparr>out_buf = [], in_buf = [7, 7], in_size = 2\<rparr>) = 0"
    by (simp_all add: conn_mem_def net_rx_space_def net_tx_avail_def BIO_ctrl_pending_def
                      BIO_ctrl_get_write_guarantee_def)
  note h = pump_wait_set [THEN conjunct1]
  show ?thesis
    by (simp add: h e v) auto
qed

end
